theory Spec2Isabelle
  imports Complex_Main
begin

text \<open>
  The opportunity validation and profitability gating of the arbitrage bot: the circuit
  breaker, the price and liquidity validators, and the two managers that sequence them.
  Each section follows one source file and keeps its names.
\<close>

section \<open>Circuit breaker (src/risk/CircuitBreakerManager.js)\<close>

text \<open>
  The manager is a singleton holding a configuration read once in the constructor and a
  mutable \<open>state\<close> object. Amounts are JavaScript BigInt values (wei) and are modelled
  as \<open>int\<close>; timestamps are \<open>Date.now()\<close> milliseconds and are modelled as \<open>int\<close>.
  Every method takes the clock reading \<open>now\<close> as an argument; all reads of the clock
  inside one synchronous call see the same value. Console output and the calls to
  MonitoringService only report and are left out.
\<close>

record cb_config =
  enabled :: bool
  maxConsecutiveFailures :: int
  maxDailyLoss :: int
  cooldownPeriodMinutes :: int
  priceDeviationPercent :: real
  liquidityThresholdPercent :: real

record execution =
  ex_timestamp :: int
  ex_profit :: int
  ex_gasUsed :: int
  ex_netProfit :: int
  ex_tokens :: string

record breach =
  br_timestamp :: int
  br_reason :: string
  br_cooldownUntil :: int

record cb_state =
  active :: bool
  consecutiveFailures :: int
  dailyLoss :: int
  lastResetTime :: int
  cooldownUntil :: int
  executionHistory :: "execution list"
  breaches :: "breach list"

definition initial_state :: "int \<Rightarrow> cb_state" where
  "initial_state now =
     \<lparr>active = False, consecutiveFailures = 0, dailyLoss = 0, lastResetTime = now,
      cooldownUntil = 0, executionHistory = [], breaches = []\<rparr>"

text \<open>\<open>slice(-n)\<close> of an array for \<open>n > 0\<close>: the last \<open>n\<close> elements.\<close>

definition slice_last :: "nat \<Rightarrow> 'a list \<Rightarrow> 'a list" where
  "slice_last n xs = drop (length xs - n) xs"

definition resetDailyStats :: "int \<Rightarrow> cb_state \<Rightarrow> cb_state" where
  "resetDailyStats now s =
     s\<lparr>lastResetTime := now, dailyLoss := 0, executionHistory := [],
       breaches := slice_last 10 (breaches s)\<rparr>"

text \<open>
  \<open>isTripped\<close> returns the answer together with the state it leaves behind: an
  expired cooldown is cleared by the query itself.
\<close>

definition isTripped :: "cb_config \<Rightarrow> int \<Rightarrow> cb_state \<Rightarrow> bool \<times> cb_state" where
  "isTripped c now s =
     (if \<not> enabled c then (False, s)
      else if active s \<and> now < cooldownUntil s then (True, s)
      else if active s then (False, s\<lparr>active := False\<rparr>)
      else (False, s))"

definition tripCircuitBreaker :: "cb_config \<Rightarrow> int \<Rightarrow> string \<Rightarrow> cb_state \<Rightarrow> cb_state" where
  "tripCircuitBreaker c now reason s =
     (if \<not> enabled c then s
      else
        let cu = now + cooldownPeriodMinutes c * 60 * 1000
        in s\<lparr>active := True, cooldownUntil := cu,
              breaches := breaches s @
                [\<lparr>br_timestamp = now, br_reason = reason, br_cooldownUntil = cu\<rparr>]\<rparr>)"

definition recordExecution ::
  "cb_config \<Rightarrow> int \<Rightarrow> int \<Rightarrow> int \<Rightarrow> string \<Rightarrow> cb_state \<Rightarrow> cb_state" where
  "recordExecution c now profit gasUsed tokens s =
     (if \<not> enabled c then s
      else
        let netProfit = profit - gasUsed;
            s1 = s\<lparr>executionHistory := executionHistory s @
                   [\<lparr>ex_timestamp = now, ex_profit = profit, ex_gasUsed = gasUsed,
                     ex_netProfit = netProfit, ex_tokens = tokens\<rparr>]\<rparr>;
            s2 = (if netProfit > 0 then s1\<lparr>consecutiveFailures := 0\<rparr>
                  else
                    let absoluteLoss = (if netProfit < 0 then - netProfit else netProfit);
                        s1a = s1\<lparr>dailyLoss := dailyLoss s1 + absoluteLoss\<rparr>;
                        s1b = s1a\<lparr>consecutiveFailures := consecutiveFailures s1a + 1\<rparr>
                    in if consecutiveFailures s1b \<ge> maxConsecutiveFailures c
                       then tripCircuitBreaker c now ''Max consecutive failures reached'' s1b
                       else s1b)
        in if dailyLoss s2 > maxDailyLoss c
           then tripCircuitBreaker c now ''Daily loss threshold exceeded'' s2
           else s2)"

text \<open>
  \<open>checkMarketConditions\<close>: the two market-wide checks; absent data (\<open>null\<close>) is
  \<open>None\<close>.
\<close>

definition checkMarketConditions ::
  "cb_config \<Rightarrow> int \<Rightarrow> real option \<Rightarrow> real option \<Rightarrow> cb_state \<Rightarrow> bool \<times> cb_state" where
  "checkMarketConditions c now deviationPercent availablePercent s =
     (if \<not> enabled c \<or> active s then (True, s)
      else if (case deviationPercent of Some d \<Rightarrow> d > priceDeviationPercent c | None \<Rightarrow> False)
      then (False, tripCircuitBreaker c now ''Excessive price deviation detected'' s)
      else if (case availablePercent of Some a \<Rightarrow> a < liquidityThresholdPercent c
               | None \<Rightarrow> False)
      then (False, tripCircuitBreaker c now ''Insufficient liquidity detected'' s)
      else (True, s))"

text \<open>A run of recorded executions, each with its own clock reading.\<close>

fun recordAll :: "cb_config \<Rightarrow> cb_state \<Rightarrow> (int \<times> int \<times> int \<times> string) list \<Rightarrow> cb_state" where
  "recordAll c s [] = s"
| "recordAll c s ((now, profit, gasUsed, tokens) # xs) =
     recordAll c (recordExecution c now profit gasUsed tokens s) xs"


section \<open>Values shared by the validators\<close>

text \<open>
  A JavaScript number is modelled by the real it denotes (\<open>NaN\<close> and infinities are
  outside the model), a BigInt value by an \<open>int\<close>, and a caught \<open>Error\<close> object by
  \<open>JError\<close> of its message. A template literal
  is kept as the list of its pieces, so that no number formatting has to be modelled:
  \<open>Txt\<close> is literal text, \<open>Num x\<close> the default rendering of a number,
  \<open>Fixed d x\<close> the rendering \<open>x.toFixed(d)\<close> and \<open>IsoTime t\<close> the ISO rendering
  of the timestamp \<open>t\<close>.
\<close>

datatype part = Txt string | Num real | Fixed nat real | IsoTime int

type_synonym message = "part list"

datatype jsval =
    JNull
  | JBool bool
  | JNum real
  | JBig int
  | JStr message
  | JArr "jsval list"
  | JObj "(string \<times> jsval) list"
  | JUndefined
  | JError string

text \<open>
  A verdict \<open>{isValid, details: {...}}\<close>. The flat results of the inner checks
  (\<open>{isValid, reason, ...}\<close>) use the same record, with their remaining top-level
  fields in \<open>details\<close>.
\<close>

record result =
  isValid :: bool
  details :: "(string \<times> jsval) list"

definition field :: "result \<Rightarrow> string \<Rightarrow> jsval option" where
  "field r k = map_of (details r) k"

text \<open>Reading a property that may be absent, truthiness, and \<open>x || null\<close>.\<close>

definition get_field :: "result \<Rightarrow> string \<Rightarrow> jsval" where
  "get_field r k = (case field r k of None \<Rightarrow> JUndefined | Some v \<Rightarrow> v)"

fun nonempty_part :: "part \<Rightarrow> bool" where
  "nonempty_part (Txt t) = (t \<noteq> [])"
| "nonempty_part (Num x) = True"
| "nonempty_part (Fixed d x) = True"
| "nonempty_part (IsoTime t) = True"

fun truthy :: "jsval \<Rightarrow> bool" where
  "truthy JNull = False"
| "truthy JUndefined = False"
| "truthy (JBool b) = b"
| "truthy (JNum x) = (x \<noteq> 0)"
| "truthy (JBig i) = (i \<noteq> 0)"
| "truthy (JStr m) = list_ex nonempty_part m"
| "truthy (JArr xs) = True"
| "truthy (JObj kvs) = True"
| "truthy (JError e) = True"

definition or_null :: "jsval \<Rightarrow> jsval" where
  "or_null v = (if truthy v then v else JNull)"

record opportunity =
  tokenA :: string
  tokenB :: string
  tokenAAddress :: string
  tokenBAddress :: string
  buyDex :: string
  sellDex :: string
  amountIn :: real
  spreadPercentage :: real
  profitUsd :: real

definition opportunity_fields :: "opportunity \<Rightarrow> (string \<times> jsval) list" where
  "opportunity_fields opp =
     [(''tokenA'', JStr [Txt (tokenA opp)]), (''tokenB'', JStr [Txt (tokenB opp)]),
      (''tokenAAddress'', JStr [Txt (tokenAAddress opp)]),
      (''tokenBAddress'', JStr [Txt (tokenBAddress opp)]),
      (''buyDex'', JStr [Txt (buyDex opp)]), (''sellDex'', JStr [Txt (sellDex opp)]),
      (''amountIn'', JNum (amountIn opp)),
      (''spreadPercentage'', JNum (spreadPercentage opp)),
      (''profitUsd'', JNum (profitUsd opp))]"

text \<open>\<open>a || b\<close> on an optional number: \<open>undefined\<close> and \<open>0\<close> are falsy.\<close>

definition or_default :: "real option \<Rightarrow> real \<Rightarrow> real" where
  "or_default x d = (case x of None \<Rightarrow> d | Some v \<Rightarrow> if v = 0 then d else v)"

text \<open>
  BigInt division truncates toward zero and throws a RangeError on a zero divisor.
  Exceptions are \<open>Inl\<close> of the error's message.
\<close>

definition bigint_quot :: "int \<Rightarrow> int \<Rightarrow> int" where
  "bigint_quot a b = sgn a * sgn b * (\<bar>a\<bar> div \<bar>b\<bar>)"

definition bigint_div :: "int \<Rightarrow> int \<Rightarrow> string + int" where
  "bigint_div a b = (if b = 0 then Inl ''Division by zero'' else Inr (bigint_quot a b))"

definition bind_exn :: "string + 'a \<Rightarrow> ('a \<Rightarrow> string + 'b) \<Rightarrow> string + 'b" where
  "bind_exn m f = (case m of Inl e \<Rightarrow> Inl e | Inr x \<Rightarrow> f x)"

text \<open>
  The arithmetic of the runtime on numbers. Every product, quotient, sum and difference
  of two numbers, and every conversion of a decimal text to a number (\<open>Number(s)\<close>,
  \<open>parseFloat(s)\<close>), is rounded to a double. The rounding is not fixed here: the cost
  and profit computations take the five operations as a parameter and yield whatever
  numbers that arithmetic yields. Comparing two numbers and \<open>Math.floor\<close> are exact.
  \<open>exact_arith\<close> is the arithmetic that never rounds; it agrees with the runtime
  wherever every intermediate value is a double. The gas price in gwei is kept as the
  decimal with nine fractional digits that its conversion starts from: the conversion is
  monotone and a double tells such a decimal apart from a ceiling written with as few
  digits.
\<close>

record js_arith =
  fmul :: "real \<Rightarrow> real \<Rightarrow> real"
  fdiv :: "real \<Rightarrow> real \<Rightarrow> real"
  fadd :: "real \<Rightarrow> real \<Rightarrow> real"
  fsub :: "real \<Rightarrow> real \<Rightarrow> real"
  fnum :: "real \<Rightarrow> real"

definition exact_arith :: js_arith where
  "exact_arith = \<lparr>fmul = (*), fdiv = (/), fadd = (+), fsub = (-), fnum = (\<lambda>x. x)\<rparr>"

text \<open>
  The two functions of the ethers library that the validators use on amounts:
  \<open>parseUnits\<close> turns a decimal amount into the integer number of smallest units and
  throws when the amount has more fractional digits than \<open>decimals\<close>;
  \<open>formatUnits\<close> is the inverse scaling.
\<close>

definition parseUnits :: "real \<Rightarrow> nat \<Rightarrow> string + int" where
  "parseUnits a decimals =
     (if of_int \<lfloor>a * 10 ^ decimals\<rfloor> = a * 10 ^ decimals
      then Inr \<lfloor>a * 10 ^ decimals\<rfloor>
      else Inl ''too many decimals for format'')"

definition formatUnits :: "int \<Rightarrow> nat \<Rightarrow> real" where
  "formatUnits x decimals = of_int x / 10 ^ decimals"

text \<open>\<open>s.includes(sub)\<close> on strings.\<close>

fun js_includes :: "string \<Rightarrow> string \<Rightarrow> bool" where
  "js_includes [] sub = (sub = [])"
| "js_includes (c # cs) sub = (take (length sub) (c # cs) = sub \<or> js_includes cs sub)"

section \<open>Price plausibility (src/utils/PriceValidator.js)\<close>

definition pv_stablecoins :: "string list" where
  "pv_stablecoins = [''USDC'', ''USDT'', ''DAI'', ''BUSD'', ''TUSD'', ''FRAX'']"

definition pv_mainstream :: "string list" where
  "pv_mainstream = [''WETH'', ''WBTC'', ''WBNB'', ''MATIC'']"

definition pv_defi :: "string list" where
  "pv_defi = [''AAVE'', ''UNI'', ''SUSHI'', ''COMP'', ''MKR'', ''CRV'', ''YFI'']"

definition getDeviationThreshold :: "string \<Rightarrow> string \<Rightarrow> real" where
  "getDeviationThreshold tokenASymbol tokenBSymbol =
     (if tokenASymbol \<in> set pv_stablecoins \<and> tokenBSymbol \<in> set pv_stablecoins then 0.2
      else if tokenASymbol \<in> set pv_mainstream \<and> tokenBSymbol \<in> set pv_mainstream then 0.5
      else if (tokenASymbol \<in> set pv_stablecoins \<and> tokenBSymbol \<in> set pv_mainstream)
              \<or> (tokenBSymbol \<in> set pv_stablecoins \<and> tokenASymbol \<in> set pv_mainstream)
      then 0.75
      else if (tokenASymbol \<in> set pv_defi \<or> tokenBSymbol \<in> set pv_defi)
              \<and> (tokenASymbol \<in> set pv_mainstream \<or> tokenBSymbol \<in> set pv_mainstream)
      then 1.25
      else 1.0)"

text \<open>The static history that stands in for recently observed spreads.\<close>

definition getRecentSpreads :: "string \<Rightarrow> real list" where
  "getRecentSpreads pairKey =
     (if js_includes pairKey ''USDC'' \<or> js_includes pairKey ''USDT''
         \<or> js_includes pairKey ''DAI''
      then [0.05, 0.06, 0.04, 0.07, 0.05, 0.08, 0.06, 0.05]
      else [0.2, 0.3, 0.25, 0.22, 0.18, 0.26, 0.21, 0.28])"

definition spreads_avg :: "real list \<Rightarrow> real" where
  "spreads_avg xs = sum_list xs / real (length xs)"

definition spreads_stdDev :: "real list \<Rightarrow> real" where
  "spreads_stdDev xs =
     sqrt (sum_list (map (\<lambda>spread. (spread - spreads_avg xs) * (spread - spreads_avg xs)) xs)
           / real (length xs))"

definition checkAgainstRecentSpreads ::
  "string \<Rightarrow> string \<Rightarrow> string \<Rightarrow> string \<Rightarrow> real \<Rightarrow> result" where
  "checkAgainstRecentSpreads tA tB bDex sDex currentSpread =
     (let pairKey = tA @ ''-'' @ tB @ ''-'' @ bDex @ ''-'' @ sDex;
          recentSpreads = getRecentSpreads pairKey;
          avg = spreads_avg recentSpreads;
          stdDev = spreads_stdDev recentSpreads
      in if length recentSpreads > 0 \<and> currentSpread > avg + stdDev * 3
         then \<lparr>isValid = False,
               details = [(''reason'', JStr [Txt ''Spread ('', Fixed 2 currentSpread,
                  Txt ''%) is '', Fixed 1 ((currentSpread - avg) / stdDev),
                  Txt '' standard deviations above average ('', Fixed 2 avg, Txt ''%)''])]\<rparr>
         else \<lparr>isValid = True,
               details = [(''reason'', JStr [Txt ''Spread consistent with historical data''])]\<rparr>)"

text \<open>
  The validator's own mutable fields: the table of external reference prices and the time
  it was last refreshed (refreshed when older than \<open>priceUpdateInterval\<close>, one minute).
\<close>

record pv_state =
  marketPrices :: "(string \<times> real) list"
  lastMarketPriceUpdate :: int

definition pv_initial :: pv_state where
  "pv_initial = \<lparr>marketPrices = [], lastMarketPriceUpdate = 0\<rparr>"

definition priceUpdateInterval :: int where
  "priceUpdateInterval = 60000"

definition updateMarketPrices :: "int \<Rightarrow> pv_state \<Rightarrow> pv_state" where
  "updateMarketPrices now st =
     st\<lparr>marketPrices :=
          [(''WETH'', 2500), (''WBTC'', 40000), (''USDC'', 1), (''USDT'', 1), (''DAI'', 1),
           (''WBNB'', 300), (''MATIC'', 0.8), (''AAVE'', 80), (''UNI'', 5), (''SUSHI'', 1.2),
           (''COMP'', 50), (''MKR'', 1200), (''CRV'', 0.5), (''YFI'', 8000)],
        lastMarketPriceUpdate := now\<rparr>"

definition truthy_price :: "(string \<times> real) list \<Rightarrow> string \<Rightarrow> bool" where
  "truthy_price prices k = (case map_of prices k of None \<Rightarrow> False | Some v \<Rightarrow> v \<noteq> 0)"

definition compareWithMarketPrices ::
  "pv_state \<Rightarrow> int \<Rightarrow> string \<Rightarrow> string \<Rightarrow> real \<Rightarrow> result \<times> pv_state" where
  "compareWithMarketPrices st now tA tB spread =
     (let st1 = (if now - lastMarketPriceUpdate st > priceUpdateInterval
                 then updateMarketPrices now st else st);
          maxMarketDeviation = 2.0
      in if truthy_price (marketPrices st1) tA \<and> truthy_price (marketPrices st1) tB
            \<and> spread > maxMarketDeviation
         then (\<lparr>isValid = False,
                 details = [(''reason'', JStr [Txt ''Spread ('', Fixed 2 spread,
                   Txt ''%) exceeds maximum market deviation ('', Num maxMarketDeviation,
                   Txt ''%)''])]\<rparr>, st1)
         else (\<lparr>isValid = True,
                 details = [(''reason'', JStr [Txt ''Spread consistent with market prices''])]\<rparr>,
               st1))"

definition checkForAttackPatterns :: "opportunity \<Rightarrow> result" where
  "checkForAttackPatterns opp =
     (let highSpreadThreshold = 5.0; largeAmountThreshold = 10000
      in if spreadPercentage opp > highSpreadThreshold \<and> amountIn opp > largeAmountThreshold
         then \<lparr>isValid = False,
               details = [(''reason'', JStr [Txt ''Suspiciously high spread ('',
                  Fixed 2 (spreadPercentage opp), Txt ''%) with large amount ('',
                  Num (amountIn opp), Txt '')''])]\<rparr>
         else \<lparr>isValid = True,
               details = [(''reason'', JStr [Txt ''No suspicious attack patterns detected''])]\<rparr>)"

definition PV_validatePriceDifference ::
  "pv_state \<Rightarrow> int \<Rightarrow> opportunity \<Rightarrow> result \<times> pv_state" where
  "PV_validatePriceDifference st now opp =
     (let threshold = getDeviationThreshold (tokenA opp) (tokenB opp)
      in if spreadPercentage opp > threshold
         then
           let recentSpreadsCheck = checkAgainstRecentSpreads (tokenA opp) (tokenB opp)
                 (buyDex opp) (sellDex opp) (spreadPercentage opp)
           in if \<not> isValid recentSpreadsCheck then (recentSpreadsCheck, st)
              else
                let (marketPriceCheck, st1) = compareWithMarketPrices st now (tokenA opp)
                      (tokenB opp) (spreadPercentage opp)
                in if \<not> isValid marketPriceCheck then (marketPriceCheck, st1)
                   else
                     let attackPatternCheck = checkForAttackPatterns opp
                     in if \<not> isValid attackPatternCheck then (attackPatternCheck, st1)
                        else (\<lparr>isValid = True,
                                details =
                                  [(''reason'', JStr [Txt ''High spread ('',
                                      Fixed 2 (spreadPercentage opp),
                                      Txt ''%) but validated against market data'']),
                                   (''warning'', JStr [Txt ''Spread exceeds normal threshold ('',
                                      Num threshold, Txt ''%) - proceed with caution''])]\<rparr>, st1)
         else (\<lparr>isValid = True,
                 details = [(''reason'', JStr [Txt ''Spread ('', Fixed 2 (spreadPercentage opp),
                    Txt ''%) within acceptable threshold ('', Num threshold, Txt ''%)''])]\<rparr>, st))"

definition PV_validateOpportunity :: "pv_state \<Rightarrow> int \<Rightarrow> opportunity \<Rightarrow> result \<times> pv_state" where
  "PV_validateOpportunity st now opp =
     (let (priceCheck, st1) = PV_validatePriceDifference st now opp
      in if \<not> isValid priceCheck
         then (\<lparr>isValid = False,
                 details = [(''reason'', get_field priceCheck ''reason''),
                            (''check'', JStr [Txt ''price_difference''])]\<rparr>, st1)
         else (\<lparr>isValid = True,
                 details = [(''threshold'',
                               JNum (getDeviationThreshold (tokenA opp) (tokenB opp))),
                            (''spreadPercentage'', JNum (spreadPercentage opp)),
                            (''warning'', or_null (get_field priceCheck ''warning''))]\<rparr>, st1))"


section \<open>Liquidity depth (src/utils/LiquidityValidator.js)\<close>

record token_info =
  symbol :: string
  address :: string
  decimals :: nat

text \<open>
  What \<open>getDexReserves\<close> returns for a venue and a token pair. The function reads the
  chain and catches its own errors, so a failure is the value \<open>success = False\<close> with
  an error text. \<open>res_expectedOutput\<close> is only filled in for Uniswap V3.
\<close>

record reserves =
  success :: bool
  res_error :: string
  reserveIn :: int
  reserveOut :: int
  swapRate :: int
  res_expectedOutput :: int

record liq_options =
  maxReserveRatio :: "real option"
  maxPriceImpact :: "real option"
  slippageCheck :: bool
  slippageTolerance :: "real option"

definition no_options :: liq_options where
  "no_options = \<lparr>maxReserveRatio = None, maxPriceImpact = None, slippageCheck = False,
     slippageTolerance = None\<rparr>"

text \<open>The local \<open>reserveRatio\<close> of \<open>checkDexLiquidity\<close>, in percent.\<close>

definition reserveRatio_of :: "int \<Rightarrow> int \<Rightarrow> string + real" where
  "reserveRatio_of amt rIn =
     bind_exn (bigint_div (amt * 10000) rIn) (\<lambda>q. Inr (real_of_int q / 100))"

text \<open>
  The local \<open>priceImpact\<close>, in percent, from the spot price and the execution price,
  both scaled by 10000 and truncated.
\<close>

definition priceImpact_of :: "reserves \<Rightarrow> int \<Rightarrow> int \<Rightarrow> string + real" where
  "priceImpact_of rs expectedOutput amt =
     bind_exn (bigint_div (reserveOut rs * 10000) (reserveIn rs)) (\<lambda>spotPrice.
     bind_exn (bigint_div (expectedOutput * 10000) amt) (\<lambda>executionPrice.
     bind_exn (bigint_div ((spotPrice - executionPrice) * 10000) spotPrice) (\<lambda>q.
       Inr (real_of_int q / 100))))"

text \<open>The expected output: the venue's own figure for Uniswap V3, constant product else.\<close>

definition expectedOutput_of :: "string \<Rightarrow> reserves \<Rightarrow> int \<Rightarrow> string + int" where
  "expectedOutput_of dexName rs amt =
     (if dexName = ''Uniswap V3'' then Inr (res_expectedOutput rs)
      else
        let amountInWithFee = amt * 997;
            numerator = amountInWithFee * reserveOut rs;
            denominator = reserveIn rs * 1000 + amountInWithFee
        in bigint_div numerator denominator)"

definition checkDexLiquidity_body ::
  "real option \<Rightarrow> reserves \<Rightarrow> string \<Rightarrow> token_info \<Rightarrow> token_info \<Rightarrow> int \<Rightarrow> liq_options
     \<Rightarrow> string + result" where
  "checkDexLiquidity_body cfgSlippage rs dexName tokenIn tokenOut amt opts =
     (if \<not> success rs
      then Inr \<lparr>isValid = False, details = [(''reason'', JStr [Txt (res_error rs)])]\<rparr>
      else
        bind_exn (reserveRatio_of amt (reserveIn rs)) (\<lambda>reserveRatio.
          let MAX_RESERVE_RATIO = or_default (maxReserveRatio opts) 5
          in if reserveRatio > MAX_RESERVE_RATIO
             then Inr \<lparr>isValid = False,
                    details = [(''reason'', JStr [Txt ''Trade size ('', Fixed 2 reserveRatio,
                         Txt ''%) exceeds maximum safe ratio ('', Num MAX_RESERVE_RATIO,
                         Txt ''%)'']),
                       (''reserveRatio'', JNum reserveRatio)]\<rparr>
             else
               bind_exn (expectedOutput_of dexName rs amt) (\<lambda>expectedOutput.
               bind_exn (priceImpact_of rs expectedOutput amt) (\<lambda>priceImpact.
                 let tol = or_default (slippageTolerance opts) (or_default cfgSlippage 0.5);
                     minAcceptableOutput =
                       bigint_quot (amt * swapRate rs * (100 - \<lfloor>tol * 100\<rfloor>)) 10000;
                     MAX_PRICE_IMPACT = or_default (maxPriceImpact opts) 3
                 in if slippageCheck opts \<and> expectedOutput < minAcceptableOutput
                    then Inr \<lparr>isValid = False,
                           details = [(''reason'', JStr [Txt ''High slippage detected: expected '',
                                Num (formatUnits expectedOutput (decimals tokenOut)),
                                Txt '', min acceptable: '',
                                Num (formatUnits minAcceptableOutput (decimals tokenOut))]),
                              (''expectedOutput'', JBig expectedOutput),
                              (''minAcceptableOutput'', JBig minAcceptableOutput),
                              (''slippage'', JNum tol)]\<rparr>
                    else if priceImpact > MAX_PRICE_IMPACT
                    then Inr \<lparr>isValid = False,
                           details = [(''reason'', JStr [Txt ''Price impact too high: '',
                                Fixed 2 priceImpact, Txt ''% > '', Num MAX_PRICE_IMPACT,
                                Txt ''%'']),
                              (''priceImpact'', JNum priceImpact)]\<rparr>
                    else Inr \<lparr>isValid = True,
                           details = [(''expectedOutput'', JBig expectedOutput),
                              (''reserveIn'', JBig (reserveIn rs)),
                              (''reserveOut'', JBig (reserveOut rs)),
                              (''reserveRatio'', JNum reserveRatio),
                              (''priceImpact'', JNum priceImpact)]\<rparr>))))"

text \<open>
  \<open>checkDexLiquidity\<close>: the body runs inside \<open>try\<close>; anything it throws becomes a
  rejection. The first argument is \<open>config.slippageTolerance\<close>, the second the answer
  of \<open>getDexReserves\<close> for this venue and pair.
\<close>

definition checkDexLiquidity ::
  "real option \<Rightarrow> reserves \<Rightarrow> string \<Rightarrow> token_info \<Rightarrow> token_info \<Rightarrow> int \<Rightarrow> liq_options
     \<Rightarrow> result" where
  "checkDexLiquidity cfgSlippage rs dexName tokenIn tokenOut amt opts =
     (case checkDexLiquidity_body cfgSlippage rs dexName tokenIn tokenOut amt opts of
        Inl e \<Rightarrow> \<lparr>isValid = False,
                  details = [(''reason'', JStr [Txt ''Error checking DEX liquidity: '', Txt e])]\<rparr>
      | Inr r \<Rightarrow> r)"

definition lv_stablecoins :: "string list" where
  "lv_stablecoins = [''USDC'', ''USDT'', ''DAI'', ''BUSD'', ''TUSD'', ''USDN'', ''FRAX'']"

text \<open>The local \<open>maxAllowedDeviation\<close> of \<open>validatePriceDifference\<close>.\<close>

definition maxAllowedDeviation_of :: "string \<Rightarrow> string \<Rightarrow> real" where
  "maxAllowedDeviation_of symA symB =
     (if symA \<in> set lv_stablecoins \<and> symB \<in> set lv_stablecoins then 0.25
      else if symA \<in> set [''WETH'', ''WBTC''] \<or> symB \<in> set [''WETH'', ''WBTC''] then 0.75
      else 1.5)"

text \<open>
  \<open>validatePriceDifference\<close> has no \<open>try\<close> of its own: a zero \<open>amountIn\<close> or
  \<open>buyAmount\<close> makes the BigInt division throw to the caller.
\<close>

definition LV_validatePriceDifference ::
  "token_info \<Rightarrow> token_info \<Rightarrow> int \<Rightarrow> int \<Rightarrow> int \<Rightarrow> string + result" where
  "LV_validatePriceDifference tA tB amt buyAmount sellAmount =
     bind_exn (bigint_div (buyAmount * 10000) amt) (\<lambda>b.
     bind_exn (bigint_div (sellAmount * 10000) buyAmount) (\<lambda>sl.
       let buyRate = real_of_int b / 10000;
           sellRate = real_of_int sl / 10000;
           deviation = \<bar>(sellRate * buyRate - 1) * 100\<bar>;
           maxAllowedDeviation = maxAllowedDeviation_of (symbol tA) (symbol tB)
       in if deviation > maxAllowedDeviation
          then Inr \<lparr>isValid = False,
                 details = [(''reason'', JStr [Txt ''Price deviation ('', Fixed 2 deviation,
                      Txt ''%) exceeds maximum allowed ('', Num maxAllowedDeviation,
                      Txt ''%) for this token pair'']),
                    (''deviation'', JNum deviation)]\<rparr>
          else Inr \<lparr>isValid = True, details = [(''deviation'', JNum deviation)]\<rparr>))"


section \<open>Orchestration (src/utils/ValidationManager.js)\<close>

text \<open>
  What a validation run does besides returning is kept as a trace: \<open>Called f\<close> for a
  call that leaves the orchestrator (a sub-validator, the provider, the circuit breaker)
  and \<open>Emitted e r\<close> for an event handed to the listeners.
\<close>

datatype event = Called string | Emitted string result

record vm_config =
  cfg_maxGasPrice :: "real option"
  cfg_tokens :: "token_info list"
  cfg_aaveFee :: "real option"
  cfg_minProfitUsd :: "real option"
  cfg_simulateBeforeExecution :: bool

record validation_manager =
  vm_cfg :: vm_config
  marketVolatility :: string
  riskTolerance :: string
  maxGasPrice :: real
  minProfitMultiplier :: real

definition new_ValidationManager :: "vm_config \<Rightarrow> validation_manager" where
  "new_ValidationManager cfg =
     \<lparr>vm_cfg = cfg, marketVolatility = ''normal'', riskTolerance = ''medium'',
      maxGasPrice = or_default (cfg_maxGasPrice cfg) 100, minProfitMultiplier = 2.0\<rparr>"

definition setMarketConditions ::
  "string \<Rightarrow> string \<Rightarrow> validation_manager \<Rightarrow> validation_manager" where
  "setMarketConditions volatility risk m =
     m\<lparr>marketVolatility := volatility, riskTolerance := risk,
       minProfitMultiplier :=
         (if volatility = ''high'' then 3.0 else if volatility = ''low'' then 1.5 else 2.0)\<rparr>"

text \<open>
  The collaborators of the manager: the arithmetic of the runtime, the provider's fee
  data (the gas price in wei, or the message of what the call threw) and the two validator
  objects it holds.
\<close>

record vm_env =
  vm_arith :: js_arith
  getFeeData :: "string + int"
  liquidity_validateOpportunity :: "opportunity \<Rightarrow> string + result"
  price_validateOpportunity :: "opportunity \<Rightarrow> string + result"

definition checkGasPrice :: "validation_manager \<Rightarrow> string + int \<Rightarrow> result" where
  "checkGasPrice m feeData =
     (case feeData of
        Inl e \<Rightarrow>
          \<lparr>isValid = False,
           details = [(''reason'', JStr [Txt ''Error checking gas price: '', Txt e]),
                      (''check'', JStr [Txt ''gas_price''])]\<rparr>
      | Inr gasPrice \<Rightarrow>
          let gasPriceGwei = formatUnits gasPrice 9
          in if gasPriceGwei > maxGasPrice m
             then \<lparr>isValid = False,
                   details = [(''reason'', JStr [Txt ''Gas price too high: '',
                                 Fixed 2 gasPriceGwei, Txt '' gwei > '', Num (maxGasPrice m),
                                 Txt '' gwei'']),
                              (''gasPrice'', JBig gasPrice),
                              (''gasPriceGwei'', JNum gasPriceGwei),
                              (''maxGasPrice'', JNum (maxGasPrice m)),
                              (''check'', JStr [Txt ''gas_price''])]\<rparr>
             else \<lparr>isValid = True,
                   details = [(''gasPrice'', JBig gasPrice),
                              (''gasPriceGwei'', JNum gasPriceGwei)]\<rparr>)"

definition vm_prices :: "(string \<times> real) list" where
  "vm_prices = [(''WETH'', 2500), (''WBTC'', 40000), (''USDC'', 1), (''USDT'', 1), (''DAI'', 1)]"

definition getTokenPriceUsd :: "string \<Rightarrow> real option" where
  "getTokenPriceUsd tokenSymbol =
     (case map_of vm_prices tokenSymbol of None \<Rightarrow> None | Some v \<Rightarrow> if v = 0 then None else Some v)"

definition getEthPriceUsd :: "real option" where
  "getEthPriceUsd = Some 2500"

text \<open>The locals of \<open>analyzeProfitability\<close>, in the order the source computes them.\<close>

definition flashLoanFee_of :: "js_arith \<Rightarrow> vm_config \<Rightarrow> int \<Rightarrow> int" where
  "flashLoanFee_of ar cfg amount =
     bigint_quot (amount * \<lfloor>fmul ar (or_default (cfg_aaveFee cfg) 0.09) 100\<rfloor>) 10000"

definition flashLoanFeeUsd_of :: "js_arith \<Rightarrow> int \<Rightarrow> nat \<Rightarrow> real \<Rightarrow> real" where
  "flashLoanFeeUsd_of ar flashLoanFee tokenDecimals tokenPriceUsd =
     fmul ar (fnum ar (formatUnits flashLoanFee tokenDecimals)) tokenPriceUsd"

definition gasCostUsd_of :: "js_arith \<Rightarrow> int \<Rightarrow> real \<Rightarrow> real" where
  "gasCostUsd_of ar gasPrice ethPriceUsd =
     fmul ar (fnum ar (formatUnits (gasPrice * 500000) 18)) ethPriceUsd"

definition netProfitUsd_of :: "js_arith \<Rightarrow> real \<Rightarrow> real \<Rightarrow> real \<Rightarrow> real" where
  "netProfitUsd_of ar profit flashLoanFeeUsd gasCostUsd =
     fsub ar (fsub ar profit flashLoanFeeUsd) gasCostUsd"

definition profitToGasRatio_of :: "js_arith \<Rightarrow> real \<Rightarrow> real \<Rightarrow> real" where
  "profitToGasRatio_of ar netProfitUsd gasCostUsd =
     (if gasCostUsd > 0 then fdiv ar netProfitUsd gasCostUsd else 0)"

definition profitability_gates ::
  "js_arith \<Rightarrow> validation_manager \<Rightarrow> real \<Rightarrow> real \<Rightarrow> real \<Rightarrow> real \<Rightarrow> real \<Rightarrow> result" where
  "profitability_gates ar m profit flashLoanFeeUsd gasCostUsd ethPriceUsd tokenPriceUsd =
     (let netProfitUsd = netProfitUsd_of ar profit flashLoanFeeUsd gasCostUsd;
          profitToGasRatio = profitToGasRatio_of ar netProfitUsd gasCostUsd;
          minProfitUsd = or_default (cfg_minProfitUsd (vm_cfg m)) 10;
          requiredProfitMultiplier = (profitToGasRatio \<ge> minProfitMultiplier m)
      in if netProfitUsd \<le> minProfitUsd
         then \<lparr>isValid = False,
               details = [(''reason'', JStr [Txt ''Net profit ('', Fixed 2 netProfitUsd,
                             Txt '' USD) below minimum threshold ('', Num minProfitUsd,
                             Txt '' USD)'']),
                          (''profitUsd'', JNum profit),
                          (''flashLoanFeeUsd'', JNum flashLoanFeeUsd),
                          (''gasCostUsd'', JNum gasCostUsd),
                          (''netProfitUsd'', JNum netProfitUsd),
                          (''profitToGasRatio'', JNum profitToGasRatio),
                          (''check'', JStr [Txt ''profitability''])]\<rparr>
         else if \<not> requiredProfitMultiplier
         then \<lparr>isValid = False,
               details = [(''reason'', JStr [Txt ''Profit/gas ratio ('', Fixed 2 profitToGasRatio,
                             Txt '') below required multiplier ('', Num (minProfitMultiplier m),
                             Txt '')'']),
                          (''profitUsd'', JNum profit),
                          (''flashLoanFeeUsd'', JNum flashLoanFeeUsd),
                          (''gasCostUsd'', JNum gasCostUsd),
                          (''netProfitUsd'', JNum netProfitUsd),
                          (''profitToGasRatio'', JNum profitToGasRatio),
                          (''requiredMultiplier'', JNum (minProfitMultiplier m)),
                          (''check'', JStr [Txt ''profitability''])]\<rparr>
         else \<lparr>isValid = True,
               details = [(''profitUsd'', JNum profit),
                          (''flashLoanFeeUsd'', JNum flashLoanFeeUsd),
                          (''gasCostUsd'', JNum gasCostUsd),
                          (''netProfitUsd'', JNum netProfitUsd),
                          (''profitToGasRatio'', JNum profitToGasRatio),
                          (''ethPriceUsd'', JNum ethPriceUsd),
                          (''tokenPriceUsd'', JNum tokenPriceUsd)]\<rparr>)"

definition profitability_reject :: "message \<Rightarrow> result" where
  "profitability_reject msg =
     \<lparr>isValid = False,
      details = [(''reason'', JStr msg), (''check'', JStr [Txt ''profitability''])]\<rparr>"

text \<open>
  \<open>analyzeProfitability\<close>. The gas price arrives as the \<open>gasPrice\<close> property of the
  gas check's details; multiplying anything but a BigInt by a BigInt throws, and the
  function's own \<open>catch\<close> turns every exception into a rejection.
\<close>

definition analyzeProfitability_body ::
  "js_arith \<Rightarrow> validation_manager \<Rightarrow> opportunity \<Rightarrow> jsval \<Rightarrow> string + result" where
  "analyzeProfitability_body ar m opp gasPrice =
     (case find (\<lambda>t. symbol t = tokenA opp) (cfg_tokens (vm_cfg m)) of
        None \<Rightarrow> Inr (profitability_reject [Txt ''Token info not found for '', Txt (tokenA opp)])
      | Some tokenInfo \<Rightarrow>
          bind_exn (parseUnits (amountIn opp) (decimals tokenInfo)) (\<lambda>amount.
            let flashLoanFee = flashLoanFee_of ar (vm_cfg m) amount
            in case getTokenPriceUsd (tokenA opp) of
                 None \<Rightarrow>
                   Inr (profitability_reject [Txt ''Could not get price for '', Txt (tokenA opp)])
               | Some tokenPriceUsd \<Rightarrow>
                   (let flashLoanFeeUsd =
                          flashLoanFeeUsd_of ar flashLoanFee (decimals tokenInfo) tokenPriceUsd
                    in case gasPrice of
                         JBig gp \<Rightarrow>
                           (case getEthPriceUsd of
                              None \<Rightarrow> Inr (profitability_reject [Txt ''Could not get ETH price''])
                            | Some ethPriceUsd \<Rightarrow>
                                Inr (profitability_gates ar m (profitUsd opp) flashLoanFeeUsd
                                      (gasCostUsd_of ar gp ethPriceUsd) ethPriceUsd
                                      tokenPriceUsd))
                       | _ \<Rightarrow>
                           Inl ''Cannot mix BigInt and other types, use explicit conversions'')))"

definition analyzeProfitability ::
  "js_arith \<Rightarrow> validation_manager \<Rightarrow> opportunity \<Rightarrow> jsval \<Rightarrow> result" where
  "analyzeProfitability ar m opp gasPrice =
     (case analyzeProfitability_body ar m opp gasPrice of
        Inl e \<Rightarrow> profitability_reject [Txt ''Error calculating profitability: '', Txt e]
      | Inr r \<Rightarrow> r)"

definition simulateArbitrage :: "opportunity \<Rightarrow> result" where
  "simulateArbitrage opp =
     \<lparr>isValid = True, details = [(''simulationResult'', JStr [Txt ''success''])]\<rparr>"

definition warning_list :: "result \<Rightarrow> jsval list" where
  "warning_list r =
     (if truthy (get_field r ''warning'') then [get_field r ''warning''] else [])"

text \<open>Steps 4 and 5 and the final verdict, once the first three checks have passed.\<close>

definition VM_conclude ::
  "js_arith \<Rightarrow> validation_manager \<Rightarrow> opportunity \<Rightarrow> result \<Rightarrow> result \<Rightarrow> result \<Rightarrow> result" where
  "VM_conclude ar m opp gasPriceCheck liquidityCheck priceCheck =
     (let profitabilityCheck =
            analyzeProfitability ar m opp (get_field gasPriceCheck ''gasPrice'')
      in if \<not> isValid profitabilityCheck then profitabilityCheck
         else if cfg_simulateBeforeExecution (vm_cfg m) \<and> \<not> isValid (simulateArbitrage opp)
         then simulateArbitrage opp
         else \<lparr>isValid = True,
               details = [(''profitUsd'', get_field profitabilityCheck ''netProfitUsd''),
                          (''gasCostUsd'', get_field profitabilityCheck ''gasCostUsd''),
                          (''flashLoanFeeUsd'', get_field profitabilityCheck ''flashLoanFeeUsd''),
                          (''netProfitUsd'', get_field profitabilityCheck ''netProfitUsd''),
                          (''profitToGasRatio'',
                             get_field profitabilityCheck ''profitToGasRatio''),
                          (''warnings'',
                             JArr (warning_list priceCheck @ warning_list liquidityCheck))]\<rparr>)"

text \<open>The \<open>try\<close> block of \<open>validateOpportunity\<close>: its outcome and what it called.\<close>

definition VM_validateOpportunity_body ::
  "validation_manager \<Rightarrow> vm_env \<Rightarrow> opportunity \<Rightarrow> (string + result) \<times> event list" where
  "VM_validateOpportunity_body m env opp =
     (let gasPriceCheck = checkGasPrice m (getFeeData env);
          tr1 = [Called ''provider.getFeeData'']
      in if \<not> isValid gasPriceCheck then (Inr gasPriceCheck, tr1)
         else
           let tr2 = tr1 @ [Called ''liquidityValidator.validateOpportunity'']
           in case liquidity_validateOpportunity env opp of
                Inl e \<Rightarrow> (Inl e, tr2)
              | Inr liquidityCheck \<Rightarrow>
                  if \<not> isValid liquidityCheck then (Inr liquidityCheck, tr2)
                  else
                    (let tr3 = tr2 @ [Called ''priceValidator.validateOpportunity'']
                     in case price_validateOpportunity env opp of
                          Inl e \<Rightarrow> (Inl e, tr3)
                        | Inr priceCheck \<Rightarrow>
                            if \<not> isValid priceCheck then (Inr priceCheck, tr3)
                            else (Inr (VM_conclude (vm_arith env) m opp gasPriceCheck
                                         liquidityCheck priceCheck),
                                  tr3)))"

text \<open>
  The verdict built by the \<open>catch\<close> of this manager: its \<open>error\<close> property is the
  caught \<open>Error\<close> object itself.
\<close>

definition vm_validation_error :: "string \<Rightarrow> result" where
  "vm_validation_error e =
     \<lparr>isValid = False,
      details = [(''reason'', JStr [Txt ''Validation error: '', Txt e]),
                 (''error'', JError e)]\<rparr>"

definition VM_validateOpportunity ::
  "validation_manager \<Rightarrow> vm_env \<Rightarrow> opportunity \<Rightarrow> result \<times> event list" where
  "VM_validateOpportunity m env opp =
     (case VM_validateOpportunity_body m env opp of
        (Inl e, tr) \<Rightarrow> (vm_validation_error e, tr)
      | (Inr r, tr) \<Rightarrow> (r, tr))"


section \<open>Orchestration with the circuit breaker (src/utils/EnhancedValidationManager.js)\<close>

text \<open>
  The enhanced manager's own flags, and the one setting of the price validator it reads
  (\<open>priceValidator.config.minProfitUsd\<close>).
\<close>

record enhanced_manager =
  validationEnabled :: bool
  strictMode :: bool
  pv_minProfitUsd :: real

definition setValidationEnabled :: "bool \<Rightarrow> enhanced_manager \<Rightarrow> enhanced_manager" where
  "setValidationEnabled en m = m\<lparr>validationEnabled := en\<rparr>"

text \<open>
  Its collaborators, the arithmetic of the runtime among them. The two validator methods
  it calls, \<open>validateLiquidity\<close> and
  \<open>validatePrices\<close>, and the price lookup are not defined by the validator classes of
  this repository, so they are arbitrary functions here: each returns a verdict or throws
  a message. \<open>config_maxGasPrice\<close> is \<open>config.get('validation.gas.maxGasPrice')\<close>,
  which throws for a key that is not configured.
\<close>

record evm_env =
  evm_arith :: js_arith
  validateLiquidity :: "string \<Rightarrow> string \<Rightarrow> int \<Rightarrow> string \<Rightarrow> string + result"
  validatePrices :: "string \<Rightarrow> string \<Rightarrow> string \<Rightarrow> string \<Rightarrow> real \<Rightarrow> string + result"
  evm_getFeeData :: "string + int"
  pv_getTokenPriceUsd :: "string \<Rightarrow> string + real"
  config_maxGasPrice :: "string + real option"

definition getDecimals :: "string \<Rightarrow> nat" where
  "getDecimals sy =
     (if sy = ''WETH'' then 18
      else if sy = ''WBTC'' then 8
      else if sy \<in> set [''USDC'', ''USDT''] then 6
      else 18)"

definition breach_obj :: "breach \<Rightarrow> jsval" where
  "breach_obj b =
     JObj [(''timestamp'', JNum (real_of_int (br_timestamp b))),
           (''reason'', JStr [Txt (br_reason b)]),
           (''cooldownUntil'', JNum (real_of_int (br_cooldownUntil b)))]"

definition getStatus :: "cb_config \<Rightarrow> cb_state \<Rightarrow> jsval" where
  "getStatus c s =
     JObj [(''enabled'', JBool (enabled c)),
           (''active'', JBool (active s)),
           (''consecutiveFailures'', JNum (real_of_int (consecutiveFailures s))),
           (''dailyLoss'', JStr [Num (formatUnits (dailyLoss s) 18)]),
           (''lastResetTime'', JStr [IsoTime (lastResetTime s)]),
           (''cooldownUntil'',
              (if cooldownUntil s > 0 then JStr [IsoTime (cooldownUntil s)] else JNull)),
           (''executionCount'', JNum (real (length (executionHistory s)))),
           (''recentBreaches'', JArr (map breach_obj (slice_last 3 (breaches s))))]"

text \<open>
  The verdict built by the \<open>catch\<close> of the enhanced manager: its \<open>error\<close> property
  is the message of the caught exception.
\<close>

definition validation_error :: "string \<Rightarrow> result" where
  "validation_error e =
     \<lparr>isValid = False,
      details = [(''reason'', JStr [Txt ''Validation error: '', Txt e]),
                 (''error'', JStr [Txt e])]\<rparr>"

definition gas_reject_too_high :: "real \<Rightarrow> real \<Rightarrow> result" where
  "gas_reject_too_high gasPriceGwei maxGas =
     \<lparr>isValid = False,
      details = [(''reason'', JStr [Txt ''Gas price too high: '', Num gasPriceGwei,
                    Txt '' gwei > '', Num maxGas, Txt '' gwei'']),
                 (''gasPrice'', JNum gasPriceGwei),
                 (''maxGasPrice'', JNum maxGas)]\<rparr>"

text \<open>The cost figures of \<open>_validateGasCosts\<close> once the gas ceiling has been passed.\<close>

definition evm_gasCostUsd :: "js_arith \<Rightarrow> int \<Rightarrow> real \<Rightarrow> real" where
  "evm_gasCostUsd ar gasPrice ethPriceUsd =
     fmul ar (fnum ar (formatUnits (gasPrice * 1000000) 18)) ethPriceUsd"

definition evm_flashLoanFeeEth :: "js_arith \<Rightarrow> opportunity \<Rightarrow> real \<Rightarrow> real" where
  "evm_flashLoanFeeEth ar opp ethPriceUsd =
     (let amountInEth = fmul ar (fnum ar (amountIn opp))
            (if tokenA opp = ''WETH'' then 1
             else if tokenA opp = ''WBTC'' then fdiv ar ethPriceUsd 20000
             else fdiv ar 1 ethPriceUsd)
      in fmul ar amountInEth (fdiv ar 0.09 100))"

definition evm_netProfitUsd :: "js_arith \<Rightarrow> opportunity \<Rightarrow> int \<Rightarrow> real \<Rightarrow> real" where
  "evm_netProfitUsd ar opp gasPrice ethPriceUsd =
     fsub ar (profitUsd opp)
       (fadd ar (evm_gasCostUsd ar gasPrice ethPriceUsd)
                (fmul ar (evm_flashLoanFeeEth ar opp ethPriceUsd) ethPriceUsd))"

definition evm_profit_gate ::
  "js_arith \<Rightarrow> enhanced_manager \<Rightarrow> opportunity \<Rightarrow> int \<Rightarrow> real \<Rightarrow> result" where
  "evm_profit_gate ar m opp gasPrice ethPriceUsd =
     (let gasCostEth = fnum ar (formatUnits (gasPrice * 1000000) 18);
          gasCostUsd = evm_gasCostUsd ar gasPrice ethPriceUsd;
          flashLoanFeeEth = evm_flashLoanFeeEth ar opp ethPriceUsd;
          flashLoanFeeUsd = fmul ar flashLoanFeeEth ethPriceUsd;
          totalCostsUsd = fadd ar gasCostUsd flashLoanFeeUsd;
          netProfitUsd = evm_netProfitUsd ar opp gasPrice ethPriceUsd;
          minProfitUsd = pv_minProfitUsd m
      in if netProfitUsd \<le> minProfitUsd
         then \<lparr>isValid = False,
               details = [(''reason'', JStr [Txt ''Not profitable after costs: $'',
                             Fixed 2 netProfitUsd, Txt '' <= $'', Fixed 2 minProfitUsd]),
                          (''profitUsd'', JNum (profitUsd opp)),
                          (''gasCostUsd'', JNum gasCostUsd),
                          (''flashLoanFeeUsd'', JNum flashLoanFeeUsd),
                          (''totalCostsUsd'', JNum totalCostsUsd),
                          (''netProfitUsd'', JNum netProfitUsd),
                          (''minProfitUsd'', JNum minProfitUsd)]\<rparr>
         else \<lparr>isValid = True,
               details = [(''gasPrice'', JNum (formatUnits gasPrice 9)),
                          (''gasCostEth'', JNum gasCostEth),
                          (''gasCostUsd'', JNum gasCostUsd),
                          (''flashLoanFeeEth'', JNum flashLoanFeeEth),
                          (''flashLoanFeeUsd'', JNum flashLoanFeeUsd),
                          (''totalCostsUsd'', JNum totalCostsUsd),
                          (''netProfitUsd'', JNum netProfitUsd),
                          (''profitMarginPercent'',
                             JNum (fmul ar (fdiv ar netProfitUsd (profitUsd opp)) 100))]\<rparr>)"

definition validateGasCosts_body ::
  "enhanced_manager \<Rightarrow> evm_env \<Rightarrow> opportunity \<Rightarrow> (string + result) \<times> event list" where
  "validateGasCosts_body m env opp =
     (let tr1 = [Called ''provider.getFeeData'']
      in case evm_getFeeData env of
           Inl e \<Rightarrow> (Inl e, tr1)
         | Inr gasPrice \<Rightarrow>
             (case config_maxGasPrice env of
                Inl e \<Rightarrow> (Inl e, tr1)
              | Inr cfgMax \<Rightarrow>
                  (let gasPriceGwei = formatUnits gasPrice 9;
                       maxGas = or_default cfgMax 100
                   in if gasPriceGwei > maxGas
                      then (Inr (gas_reject_too_high gasPriceGwei maxGas), tr1)
                      else
                        (let tr2 = tr1 @ [Called ''priceValidator.getTokenPriceUsd'']
                         in case pv_getTokenPriceUsd env ''WETH'' of
                              Inl e \<Rightarrow> (Inl e, tr2)
                            | Inr ethPriceUsd \<Rightarrow>
                                (Inr (evm_profit_gate (evm_arith env) m opp gasPrice ethPriceUsd),
                                 tr2)))))"

definition validateGasCosts ::
  "enhanced_manager \<Rightarrow> evm_env \<Rightarrow> opportunity \<Rightarrow> result \<times> event list" where
  "validateGasCosts m env opp =
     (case validateGasCosts_body m env opp of
        (Inl e, tr) \<Rightarrow>
          (\<lparr>isValid = False,
            details = [(''reason'', JStr [Txt ''Gas validation error: '', Txt e]),
                       (''error'', JStr [Txt e])]\<rparr>, tr)
      | (Inr r, tr) \<Rightarrow> (r, tr))"

text \<open>Step 5 of the enhanced manager: the verdict when every check has passed.\<close>

definition evm_validResult :: "opportunity \<Rightarrow> result \<Rightarrow> result \<Rightarrow> result \<Rightarrow> result" where
  "evm_validResult opp liquidityValidation priceValidation gasCostValidation =
     \<lparr>isValid = True,
      details = opportunity_fields opp @
        [(''validatedBy'',
            JObj [(''liquidity'', JObj (details liquidityValidation)),
                  (''price'', JObj (details priceValidation)),
                  (''gas'', JObj (details gasCostValidation))]),
         (''netProfitUsd'', get_field gasCostValidation ''netProfitUsd'')]\<rparr>"

text \<open>The \<open>try\<close> block of the enhanced \<open>validateOpportunity\<close>.\<close>

definition EVM_validateOpportunity_body ::
  "enhanced_manager \<Rightarrow> evm_env \<Rightarrow> opportunity \<Rightarrow> (string + result) \<times> event list" where
  "EVM_validateOpportunity_body m env opp =
     (case parseUnits (amountIn opp) (getDecimals (tokenA opp)) of
        Inl e \<Rightarrow> (Inl e, [])
      | Inr amt \<Rightarrow>
          (let tr1 = [Called ''liquidityValidator.validateLiquidity'']
           in case validateLiquidity env (tokenAAddress opp) (tokenBAddress opp) amt (buyDex opp) of
                Inl e \<Rightarrow> (Inl e, tr1)
              | Inr liquidityValidation \<Rightarrow>
                  (let tr2 = tr1 @ [Emitted ''liquidityValidationResult'' liquidityValidation]
                   in if \<not> isValid liquidityValidation then (Inr liquidityValidation, tr2)
                      else
                        (let tr3 = tr2 @ [Called ''priceValidator.validatePrices'']
                         in case validatePrices env (tokenA opp) (tokenB opp) (buyDex opp)
                                   (sellDex opp) (profitUsd opp) of
                              Inl e \<Rightarrow> (Inl e, tr3)
                            | Inr priceValidation \<Rightarrow>
                                (let tr4 = tr3 @ [Emitted ''priceValidationResult'' priceValidation]
                                 in if \<not> isValid priceValidation then (Inr priceValidation, tr4)
                                    else
                                      (let (gasCostValidation, trg) = validateGasCosts m env opp;
                                           tr5 = tr4 @ trg
                                       in if \<not> isValid gasCostValidation
                                          then (Inr gasCostValidation,
                                                tr5 @ [Emitted ''validationResult'' gasCostValidation])
                                          else
                                            (let validResult = evm_validResult opp
                                                   liquidityValidation priceValidation
                                                   gasCostValidation
                                             in (Inr validResult,
                                                 tr5 @ [Emitted ''validationResult'' validResult]))))))))"

text \<open>
  The enhanced \<open>validateOpportunity\<close>: verdict, trace, and the circuit-breaker state the
  status query leaves behind.
\<close>

definition EVM_validateOpportunity ::
  "enhanced_manager \<Rightarrow> evm_env \<Rightarrow> cb_config \<Rightarrow> int \<Rightarrow> cb_state \<Rightarrow> opportunity
     \<Rightarrow> result \<times> event list \<times> cb_state" where
  "EVM_validateOpportunity m env c now s opp =
     (if \<not> validationEnabled m
      then (\<lparr>isValid = True, details = [(''reason'', JStr [Txt ''Validation disabled''])]\<rparr>,
            [], s)
      else
        (let (tripped, s1) = isTripped c now s;
             tr0 = [Called ''CircuitBreakerManager.isTripped'']
         in if tripped
            then
              (let invalidResult =
                     \<lparr>isValid = False,
                      details = [(''reason'', JStr [Txt ''Circuit breaker active'']),
                                 (''circuitBreakerStatus'', getStatus c s1)]\<rparr>
               in (invalidResult,
                   tr0 @ [Called ''CircuitBreakerManager.getStatus'',
                          Emitted ''validationResult'' invalidResult], s1))
            else
              (case EVM_validateOpportunity_body m env opp of
                 (Inl e, tr) \<Rightarrow>
                   (validation_error e,
                    tr0 @ tr @ [Emitted ''validationResult'' (validation_error e)], s1)
               | (Inr r, tr) \<Rightarrow> (r, tr0 @ tr, s1))))"


section \<open>Concrete inputs\<close>

text \<open>The plain text of a message that has no number in it.\<close>

fun render_text :: "message \<Rightarrow> string option" where
  "render_text [] = Some []"
| "render_text (Txt t # ps) = map_option ((@) t) (render_text ps)"
| "render_text (p # ps) = None"

definition reason_text :: "result \<Rightarrow> string option" where
  "reason_text r = (case get_field r ''reason'' of JStr msg \<Rightarrow> render_text msg | _ \<Rightarrow> None)"

definition demo_config :: cb_config where
  "demo_config =
     \<lparr>enabled = True, maxConsecutiveFailures = 3, maxDailyLoss = 1000,
      cooldownPeriodMinutes = 30, priceDeviationPercent = 10, liquidityThresholdPercent = 50\<rparr>"

definition three_losses :: "(int \<times> int \<times> int \<times> string) list" where
  "three_losses = [(1, 0, 5, ''WETH/USDC''), (2, 0, 5, ''WETH/USDC''), (3, 0, 5, ''WETH/USDC'')]"

definition demo_opportunity :: "string \<Rightarrow> string \<Rightarrow> real \<Rightarrow> real \<Rightarrow> real \<Rightarrow> opportunity" where
  "demo_opportunity a b amt spread profit =
     \<lparr>tokenA = a, tokenB = b, tokenAAddress = ''0xA'', tokenBAddress = ''0xB'',
      buyDex = ''SushiSwap'', sellDex = ''Uniswap V3'', amountIn = amt,
      spreadPercentage = spread, profitUsd = profit\<rparr>"

text \<open>A pool of 1000 tokens on each side, 18 decimals.\<close>

definition demo_pool :: reserves where
  "demo_pool =
     \<lparr>success = True, res_error = [], reserveIn = 1000000000000000000000,
      reserveOut = 1000000000000000000000, swapRate = 10000, res_expectedOutput = 0\<rparr>"

definition demo_token :: "string \<Rightarrow> token_info" where
  "demo_token sy = \<lparr>symbol = sy, address = [], decimals = 18\<rparr>"

definition usdc_token :: token_info where
  "usdc_token = \<lparr>symbol = ''USDC'', address = [], decimals = 6\<rparr>"

definition demo_vm :: validation_manager where
  "demo_vm = new_ValidationManager
     \<lparr>cfg_maxGasPrice = None, cfg_tokens = [demo_token ''WETH'', usdc_token],
      cfg_aaveFee = None, cfg_minProfitUsd = Some 50, cfg_simulateBeforeExecution = False\<rparr>"

definition demo_vm_env :: "int \<Rightarrow> string + result \<Rightarrow> string + result \<Rightarrow> vm_env" where
  "demo_vm_env gp lq pr =
     \<lparr>vm_arith = exact_arith, getFeeData = Inr gp, liquidity_validateOpportunity = (\<lambda>opp. lq),
      price_validateOpportunity = (\<lambda>opp. pr)\<rparr>"

definition demo_manager :: enhanced_manager where
  "demo_manager = \<lparr>validationEnabled = True, strictMode = False, pv_minProfitUsd = 10\<rparr>"

definition demo_evm_env :: "int \<Rightarrow> string + result \<Rightarrow> string + result \<Rightarrow> evm_env" where
  "demo_evm_env gp lq pr =
     \<lparr>evm_arith = exact_arith,
      validateLiquidity = (\<lambda>a b amt d. lq), validatePrices = (\<lambda>a b bd sd p. pr),
      evm_getFeeData = Inr gp, pv_getTokenPriceUsd = (\<lambda>sy. Inr 2500),
      config_maxGasPrice = Inr None\<rparr>"

definition passed :: result where
  "passed = \<lparr>isValid = True, details = []\<rparr>"

definition implausible_spread :: result where
  "implausible_spread =
     \<lparr>isValid = False, details = [(''reason'', JStr [Txt ''Price deviation too high''])]\<rparr>"

definition thin_liquidity :: result where
  "thin_liquidity =
     \<lparr>isValid = False, details = [(''reason'', JStr [Txt ''Insufficient liquidity''])]\<rparr>"

section \<open>Circuit breaker: trip, cooldown and daily loss\<close>

lemma recordExecution_active_kept:
  "active s \<Longrightarrow> active (recordExecution c now p g t s)"
  by (simp add: recordExecution_def tripCircuitBreaker_def Let_def)

lemma recordExecution_loss_failures:
  "enabled c \<Longrightarrow> p - g \<le> 0 \<Longrightarrow>
   consecutiveFailures (recordExecution c now p g t s) = consecutiveFailures s + 1"
  by (simp add: recordExecution_def tripCircuitBreaker_def Let_def)

lemma recordAll_append:
  "recordAll c s (xs @ ys) = recordAll c (recordAll c s xs) ys"
  by (induction xs arbitrary: s) auto

lemma recordAll_losses_failures:
  "enabled c \<Longrightarrow> \<forall>(now, p, g, t) \<in> set xs. p - g \<le> 0 \<Longrightarrow>
   consecutiveFailures (recordAll c s xs) = consecutiveFailures s + int (length xs)"
proof (induction xs arbitrary: s)
  case Nil
  then show ?case by simp
next
  case (Cons x xs)
  obtain now p g t where x: "x = (now, p, g, t)" by (cases x) auto
  from Cons.prems x have loss: "p - g \<le> 0" by simp
  from Cons.prems have rest: "\<forall>(now, p, g, t) \<in> set xs. p - g \<le> 0" by simp
  show ?case
    using Cons.IH [OF Cons.prems(1) rest, of "recordExecution c now p g t s"]
      recordExecution_loss_failures [OF Cons.prems(1) loss, of now t s] x
    by simp
qed

lemma recordExecution_trips_on_max:
  "enabled c \<Longrightarrow> p - g \<le> 0 \<Longrightarrow> maxConsecutiveFailures c \<le> consecutiveFailures s + 1 \<Longrightarrow>
   active (recordExecution c now p g t s) \<and>
   cooldownUntil (recordExecution c now p g t s) = now + cooldownPeriodMinutes c * 60 * 1000"
  by (simp add: recordExecution_def tripCircuitBreaker_def Let_def)

lemma recordExecution_profit_resets:
  "enabled c \<Longrightarrow> 0 < p - g \<Longrightarrow> consecutiveFailures (recordExecution c now p g t s) = 0"
  by (simp add: recordExecution_def tripCircuitBreaker_def Let_def)

text \<open>
  C3. With the breaker enabled, a positive cooldown and \<open>maxConsecutiveFailures = N\<close>
  for some \<open>N > 0\<close>: recording \<open>N\<close> executions with \<open>profit - gasUsed \<le> 0\<close> on the
  initial state leaves \<open>active\<close> set and \<open>cooldownUntil\<close> later than the clock reading
  of the last recording, so that \<open>isTripped\<close> answers true then; a following execution with positive net profit resets
  \<open>consecutiveFailures\<close> to 0 and leaves \<open>active\<close> set; and a later \<open>isTripped\<close>
  at a time not before \<open>cooldownUntil\<close> answers false and clears \<open>active\<close>.
\<close>

theorem breaker_trip_reset_cycle:
  assumes en: "enabled c"
    and maxN: "maxConsecutiveFailures c = int N" and Npos: "0 < N"
    and len: "length xs = N"
    and losses: "\<forall>(now, p, g, t) \<in> set xs. p - g \<le> 0"
    and cool: "0 < cooldownPeriodMinutes c"
    and s1: "s1 = recordAll c (initial_state t0) xs"
    and gain: "0 < p - g"
    and s2: "s2 = recordExecution c now p g t s1"
    and expired: "cooldownUntil s2 \<le> later"
  shows "active s1 \<and> fst (last xs) < cooldownUntil s1
         \<and> fst (isTripped c (fst (last xs)) s1)
         \<and> consecutiveFailures s2 = 0 \<and> active s2
         \<and> fst (isTripped c later s2) = False \<and> \<not> active (snd (isTripped c later s2))"
proof -
  from len Npos obtain ys y where xs: "xs = ys @ [y]"
    by (cases xs rule: rev_cases) auto
  obtain tn pn gn tok where y: "y = (tn, pn, gn, tok)" by (cases y) auto
  from losses xs y have lossn: "pn - gn \<le> 0" by simp
  from losses xs have lossys: "\<forall>(now, p, g, t) \<in> set ys. p - g \<le> 0" by simp
  define sm where "sm = recordAll c (initial_state t0) ys"
  have cf: "consecutiveFailures sm = int (length ys)"
    using recordAll_losses_failures [OF en lossys, of "initial_state t0"]
    by (simp add: sm_def initial_state_def)
  have s1': "s1 = recordExecution c tn pn gn tok sm"
    by (simp add: s1 xs y recordAll_append sm_def)
  have reach: "maxConsecutiveFailures c \<le> consecutiveFailures sm + 1"
    using cf maxN len xs by simp
  have trip: "active s1 \<and> cooldownUntil s1 = tn + cooldownPeriodMinutes c * 60 * 1000"
    using recordExecution_trips_on_max [OF en lossn reach, of tn tok] s1' by simp
  have fut: "fst (last xs) < cooldownUntil s1"
    using trip cool xs y by simp
  have act2: "active s2"
    using trip recordExecution_active_kept [of s1 c now p g t] s2 by simp
  have cf2: "consecutiveFailures s2 = 0"
    using recordExecution_profit_resets [OF en gain, of now t s1] s2 by simp
  have q: "isTripped c later s2 = (False, s2\<lparr>active := False\<rparr>)"
    using en act2 expired by (simp add: isTripped_def)
  have held: "fst (isTripped c (fst (last xs)) s1)"
    using en trip fut by (simp add: isTripped_def)
  show ?thesis using trip fut held act2 cf2 q by simp
qed

theorem breaker_trip_reset_cycle_witness:
  "active (recordAll demo_config (initial_state 0) three_losses)
   \<and> cooldownUntil (recordAll demo_config (initial_state 0) three_losses) = 1800003
   \<and> active (recordExecution demo_config 4 10 5 ''WETH/USDC''
        (recordAll demo_config (initial_state 0) three_losses))
   \<and> consecutiveFailures (recordExecution demo_config 4 10 5 ''WETH/USDC''
        (recordAll demo_config (initial_state 0) three_losses)) = 0
   \<and> \<not> fst (isTripped demo_config 1800003
        (recordExecution demo_config 4 10 5 ''WETH/USDC''
          (recordAll demo_config (initial_state 0) three_losses)))"
  using breaker_trip_reset_cycle [where c = demo_config and N = 3 and xs = three_losses
      and ?s1.0 = "recordAll demo_config (initial_state 0) three_losses" and ?t0.0 = 0
      and p = 10 and g = 5 and now = 4 and t = "''WETH/USDC''" and later = 1800003
      and ?s2.0 = "recordExecution demo_config 4 10 5 ''WETH/USDC''
          (recordAll demo_config (initial_state 0) three_losses)"]
  by (simp add: demo_config_def three_losses_def recordExecution_def tripCircuitBreaker_def
      initial_state_def Let_def)

text \<open>
  C4. With the breaker enabled, \<open>isTripped\<close> answers true exactly when \<open>active\<close> is set
  and the clock is strictly before \<open>cooldownUntil\<close>; called with \<open>active\<close> set and the
  clock at or past \<open>cooldownUntil\<close> it clears \<open>active\<close> and answers false; in every
  other case it leaves the state as it was. So \<open>active\<close> survives a status query only
  while the cooldown has not expired.
\<close>

theorem isTripped_lazy_cooldown:
  assumes "enabled c"
  shows "(fst (isTripped c now s) \<longleftrightarrow> active s \<and> now < cooldownUntil s)
       \<and> (active s \<and> cooldownUntil s \<le> now \<longrightarrow>
            isTripped c now s = (False, s\<lparr>active := False\<rparr>))
       \<and> (\<not> (active s \<and> cooldownUntil s \<le> now) \<longrightarrow> snd (isTripped c now s) = s)
       \<and> (active (snd (isTripped c now s)) \<longrightarrow> now < cooldownUntil s)"
  using assms by (simp add: isTripped_def)

theorem isTripped_lazy_cooldown_witness:
  "fst (isTripped demo_config 5 ((initial_state 0)\<lparr>active := True, cooldownUntil := 9\<rparr>))
   \<and> isTripped demo_config 9 ((initial_state 0)\<lparr>active := True, cooldownUntil := 9\<rparr>)
       = (False, (initial_state 0)\<lparr>active := False, cooldownUntil := 9\<rparr>)"
  using isTripped_lazy_cooldown [of demo_config 5
        "(initial_state 0)\<lparr>active := True, cooldownUntil := 9\<rparr>"]
    isTripped_lazy_cooldown [of demo_config 9
        "(initial_state 0)\<lparr>active := True, cooldownUntil := 9\<rparr>"]
  by (simp add: demo_config_def initial_state_def)




section \<open>Price plausibility: thresholds and the extra checks\<close>

lemma pv_lists_disjoint:
  "set pv_stablecoins \<inter> set pv_mainstream = {}"
  "set pv_stablecoins \<inter> set pv_defi = {}"
  "set pv_mainstream \<inter> set pv_defi = {}"
  by (simp_all add: pv_stablecoins_def pv_mainstream_def pv_defi_def)

lemma pv_one_class:
  "x \<in> set pv_stablecoins \<Longrightarrow> x \<notin> set pv_mainstream"
  "x \<in> set pv_stablecoins \<Longrightarrow> x \<notin> set pv_defi"
  "x \<in> set pv_mainstream \<Longrightarrow> x \<notin> set pv_defi"
  using pv_lists_disjoint by blast+

text \<open>
  C6, as the code has it. \<open>PriceValidator.getDeviationThreshold\<close> knows five classes,
  tried in this order and symmetric in the two symbols: both stablecoins 0.2; both
  mainstream (WETH, WBTC, WBNB, MATIC) 0.5; one stablecoin and one mainstream 0.75; one
  DeFi token and one mainstream 1.25; anything else 1.0. The threshold local to
  \<open>LiquidityValidator.validatePriceDifference\<close> knows three: both stablecoins 0.25;
  otherwise either symbol WETH or WBTC 0.75; anything else 1.5.
\<close>

theorem deviation_threshold_classes:
  "getDeviationThreshold a b \<in> {0.2, 0.5, 0.75, 1.25, 1.0}
   \<and> getDeviationThreshold a b = getDeviationThreshold b a
   \<and> (getDeviationThreshold a b = 0.2 \<longleftrightarrow> a \<in> set pv_stablecoins \<and> b \<in> set pv_stablecoins)
   \<and> (getDeviationThreshold a b = 0.5 \<longleftrightarrow> a \<in> set pv_mainstream \<and> b \<in> set pv_mainstream)
   \<and> (getDeviationThreshold a b = 0.75 \<longleftrightarrow>
         (a \<in> set pv_stablecoins \<and> b \<in> set pv_mainstream)
         \<or> (b \<in> set pv_stablecoins \<and> a \<in> set pv_mainstream))
   \<and> (getDeviationThreshold a b = 1.25 \<longleftrightarrow>
         (a \<in> set pv_defi \<and> b \<in> set pv_mainstream) \<or> (b \<in> set pv_defi \<and> a \<in> set pv_mainstream))
   \<and> maxAllowedDeviation_of a b \<in> {0.25, 0.75, 1.5}
   \<and> (maxAllowedDeviation_of a b = 0.25 \<longleftrightarrow> a \<in> set lv_stablecoins \<and> b \<in> set lv_stablecoins)
   \<and> (maxAllowedDeviation_of a b = 0.75 \<longleftrightarrow>
         \<not> (a \<in> set lv_stablecoins \<and> b \<in> set lv_stablecoins)
         \<and> (a \<in> set [''WETH'', ''WBTC''] \<or> b \<in> set [''WETH'', ''WBTC'']))"
proof -
  have r: "getDeviationThreshold a b \<in> {0.2, 0.5, 0.75, 1.25, 1.0}"
    by (simp add: getDeviationThreshold_def)
  have sy: "getDeviationThreshold a b = getDeviationThreshold b a"
    unfolding getDeviationThreshold_def by (auto dest: pv_one_class)
  have c1: "getDeviationThreshold a b = 0.2 \<longleftrightarrow> a \<in> set pv_stablecoins \<and> b \<in> set pv_stablecoins"
    unfolding getDeviationThreshold_def by simp
  have c2: "getDeviationThreshold a b = 0.5 \<longleftrightarrow> a \<in> set pv_mainstream \<and> b \<in> set pv_mainstream"
    unfolding getDeviationThreshold_def by (auto dest: pv_one_class)
  have c3: "getDeviationThreshold a b = 0.75 \<longleftrightarrow>
         (a \<in> set pv_stablecoins \<and> b \<in> set pv_mainstream)
         \<or> (b \<in> set pv_stablecoins \<and> a \<in> set pv_mainstream)"
    unfolding getDeviationThreshold_def by (auto dest: pv_one_class)
  have c4: "getDeviationThreshold a b = 1.25 \<longleftrightarrow>
         (a \<in> set pv_defi \<and> b \<in> set pv_mainstream) \<or> (b \<in> set pv_defi \<and> a \<in> set pv_mainstream)"
    unfolding getDeviationThreshold_def by (auto dest: pv_one_class)
  have l1: "maxAllowedDeviation_of a b \<in> {0.25, 0.75, 1.5}"
    by (simp add: maxAllowedDeviation_of_def)
  have l2: "maxAllowedDeviation_of a b = 0.25 \<longleftrightarrow> a \<in> set lv_stablecoins \<and> b \<in> set lv_stablecoins"
    unfolding maxAllowedDeviation_of_def by simp
  have l3: "maxAllowedDeviation_of a b = 0.75 \<longleftrightarrow>
         \<not> (a \<in> set lv_stablecoins \<and> b \<in> set lv_stablecoins)
         \<and> (a \<in> set [''WETH'', ''WBTC''] \<or> b \<in> set [''WETH'', ''WBTC''])"
    unfolding maxAllowedDeviation_of_def by simp
  show ?thesis using r sy c1 c2 c3 c4 l1 l2 l3 by blast
qed

text \<open>
  The claim's three classes do not cover the code: WETH/USDC is neither a stablecoin pair
  nor a pair of majors, yet its threshold is 0.75 and not the default; AAVE/WETH gets 1.25;
  and in the liquidity validator one major token is enough for 0.75.
\<close>

theorem deviation_threshold_counterexample:
  "getDeviationThreshold ''WETH'' ''USDC'' = 0.75
   \<and> \<not> (''WETH'' \<in> set pv_stablecoins \<and> ''USDC'' \<in> set pv_stablecoins)
   \<and> \<not> (''WETH'' \<in> set pv_mainstream \<and> ''USDC'' \<in> set pv_mainstream)
   \<and> getDeviationThreshold ''AAVE'' ''WETH'' = 1.25
   \<and> maxAllowedDeviation_of ''WETH'' ''AAVE'' = 0.75"
  by (simp add: getDeviationThreshold_def pv_stablecoins_def pv_mainstream_def pv_defi_def
      maxAllowedDeviation_of_def lv_stablecoins_def)

lemma PV_validatePriceDifference_within:
  "spreadPercentage opp \<le> getDeviationThreshold (tokenA opp) (tokenB opp) \<Longrightarrow>
   PV_validatePriceDifference st now opp =
     (\<lparr>isValid = True,
       details = [(''reason'', JStr [Txt ''Spread ('', Fixed 2 (spreadPercentage opp),
          Txt ''%) within acceptable threshold ('',
          Num (getDeviationThreshold (tokenA opp) (tokenB opp)), Txt ''%)''])]\<rparr>, st)"
  by (simp add: PV_validatePriceDifference_def Let_def)

lemma PV_validatePriceDifference_above:
  "getDeviationThreshold (tokenA opp) (tokenB opp) < spreadPercentage opp \<Longrightarrow>
   fst (PV_validatePriceDifference st now opp) =
     (if \<not> isValid (checkAgainstRecentSpreads (tokenA opp) (tokenB opp) (buyDex opp)
            (sellDex opp) (spreadPercentage opp))
      then checkAgainstRecentSpreads (tokenA opp) (tokenB opp) (buyDex opp) (sellDex opp)
            (spreadPercentage opp)
      else if \<not> isValid (fst (compareWithMarketPrices st now (tokenA opp) (tokenB opp)
            (spreadPercentage opp)))
      then fst (compareWithMarketPrices st now (tokenA opp) (tokenB opp) (spreadPercentage opp))
      else if \<not> isValid (checkForAttackPatterns opp) then checkForAttackPatterns opp
      else \<lparr>isValid = True,
             details =
               [(''reason'', JStr [Txt ''High spread ('', Fixed 2 (spreadPercentage opp),
                   Txt ''%) but validated against market data'']),
                (''warning'', JStr [Txt ''Spread exceeds normal threshold ('',
                   Num (getDeviationThreshold (tokenA opp) (tokenB opp)),
                   Txt ''%) - proceed with caution''])]\<rparr>)"
  by (simp add: PV_validatePriceDifference_def Let_def case_prod_beta)

lemma PV_validateOpportunity_fst:
  "fst (PV_validateOpportunity st now opp) =
     (if \<not> isValid (fst (PV_validatePriceDifference st now opp))
      then \<lparr>isValid = False,
             details = [(''reason'',
                           get_field (fst (PV_validatePriceDifference st now opp)) ''reason''),
                        (''check'', JStr [Txt ''price_difference''])]\<rparr>
      else \<lparr>isValid = True,
             details = [(''threshold'', JNum (getDeviationThreshold (tokenA opp) (tokenB opp))),
                        (''spreadPercentage'', JNum (spreadPercentage opp)),
                        (''warning'',
                           or_null (get_field (fst (PV_validatePriceDifference st now opp))
                             ''warning''))]\<rparr>)"
  by (simp add: PV_validateOpportunity_def Let_def case_prod_beta)

text \<open>
  C7. Write \<open>thr\<close> for the pair's threshold, \<open>sec\<close>, \<open>ter\<close> and \<open>quat\<close> for the
  outcomes of the rolling-window, reference-price and attack-pattern checks, \<open>d\<close> for the
  outcome of \<open>validatePriceDifference\<close> and \<open>r\<close> for that of the validator's
  \<open>validateOpportunity\<close>. When the spread exceeds \<open>thr\<close>, \<open>r\<close> is valid exactly when
  all three checks pass (so a rejection means one of them failed), and a valid \<open>r\<close>
  carries the warning text, which is not \<open>null\<close>. When the spread is at most \<open>thr\<close>,
  \<open>r\<close> is valid and its warning is \<open>null\<close>.
\<close>

theorem price_plausibility_verdict:
  assumes thr: "thr = getDeviationThreshold (tokenA opp) (tokenB opp)"
    and sec: "sec = checkAgainstRecentSpreads (tokenA opp) (tokenB opp) (buyDex opp) (sellDex opp)
                      (spreadPercentage opp)"
    and ter: "ter = fst (compareWithMarketPrices st now (tokenA opp) (tokenB opp)
                      (spreadPercentage opp))"
    and quat: "quat = checkForAttackPatterns opp"
    and d: "d = fst (PV_validatePriceDifference st now opp)"
    and r: "r = fst (PV_validateOpportunity st now opp)"
  shows "(spreadPercentage opp > thr \<longrightarrow>
            (isValid r \<longleftrightarrow> isValid sec \<and> isValid ter \<and> isValid quat)
          \<and> (isValid d \<longleftrightarrow> isValid r)
          \<and> (isValid r \<longrightarrow>
                field r ''warning'' = Some (JStr [Txt ''Spread exceeds normal threshold ('',
                    Num thr, Txt ''%) - proceed with caution''])
              \<and> field d ''warning'' = field r ''warning''))
       \<and> (spreadPercentage opp \<le> thr \<longrightarrow>
            isValid r \<and> isValid d \<and> field r ''warning'' = Some JNull \<and> field d ''warning'' = None)"
proof (cases "spreadPercentage opp > thr")
  case True
  then have above: "getDeviationThreshold (tokenA opp) (tokenB opp) < spreadPercentage opp"
    using thr by simp
  show ?thesis
    using True
    unfolding r d PV_validateOpportunity_fst PV_validatePriceDifference_above [OF above]
      sec ter quat thr
    by (simp add: field_def get_field_def or_null_def)
next
  case False
  then have within: "spreadPercentage opp \<le> getDeviationThreshold (tokenA opp) (tokenB opp)"
    using thr by simp
  show ?thesis
    using False
    unfolding r d PV_validateOpportunity_fst PV_validatePriceDifference_within [OF within] thr
    by (simp add: field_def get_field_def or_null_def)
qed

lemma busd_tusd_within_history:
  "isValid (checkAgainstRecentSpreads ''BUSD'' ''TUSD'' ''SushiSwap'' ''Uniswap V3'' 0.3)"
proof -
  have "(1::real) / 48 \<le> sqrt (243 / 160000)"
    by (rule real_le_rsqrt) (simp add: power2_eq_square)
  then have "\<not> (0.3 > 19 / 80 + sqrt (243 / 160000 :: real) * 3)" by simp
  then show ?thesis
    unfolding checkAgainstRecentSpreads_def Let_def
    by (simp add: getRecentSpreads_def spreads_avg_def spreads_stdDev_def)
qed

theorem price_plausibility_verdict_witness:
  "isValid (fst (PV_validateOpportunity pv_initial 100000
             (demo_opportunity ''BUSD'' ''TUSD'' 1 0.3 50)))
   \<and> field (fst (PV_validateOpportunity pv_initial 100000
             (demo_opportunity ''BUSD'' ''TUSD'' 1 0.3 50))) ''warning''
       = Some (JStr [Txt ''Spread exceeds normal threshold ('', Num 0.2,
                     Txt ''%) - proceed with caution''])
   \<and> \<not> isValid (fst (PV_validateOpportunity pv_initial 100000
             (demo_opportunity ''WETH'' ''USDC'' 1 2.5 50)))
   \<and> field (fst (PV_validateOpportunity pv_initial 100000
             (demo_opportunity ''WETH'' ''WBTC'' 1 0.3 50))) ''warning'' = Some JNull"
proof -
  have thr1: "getDeviationThreshold ''BUSD'' ''TUSD'' = 0.2"
    and thr2: "getDeviationThreshold ''WETH'' ''USDC'' = 0.75"
    and thr3: "getDeviationThreshold ''WETH'' ''WBTC'' = 0.5"
    by (simp_all add: getDeviationThreshold_def pv_stablecoins_def pv_mainstream_def)
  have ter1: "isValid (fst (compareWithMarketPrices pv_initial 100000 ''BUSD'' ''TUSD'' 0.3))"
    by (simp add: compareWithMarketPrices_def Let_def)
  have quat1: "isValid (checkForAttackPatterns (demo_opportunity ''BUSD'' ''TUSD'' 1 0.3 50))"
    by (simp add: checkForAttackPatterns_def demo_opportunity_def)
  have ter2: "\<not> isValid (fst (compareWithMarketPrices pv_initial 100000 ''WETH'' ''USDC'' 2.5))"
    by (simp add: compareWithMarketPrices_def Let_def pv_initial_def priceUpdateInterval_def
        updateMarketPrices_def truthy_price_def)
  note a = price_plausibility_verdict [where st = pv_initial and now = 100000
      and opp = "demo_opportunity ''BUSD'' ''TUSD'' 1 0.3 50", OF refl refl refl refl refl refl]
  note b = price_plausibility_verdict [where st = pv_initial and now = 100000
      and opp = "demo_opportunity ''WETH'' ''USDC'' 1 2.5 50", OF refl refl refl refl refl refl]
  note c = price_plausibility_verdict [where st = pv_initial and now = 100000
      and opp = "demo_opportunity ''WETH'' ''WBTC'' 1 0.3 50", OF refl refl refl refl refl refl]
  have A: "isValid (fst (PV_validateOpportunity pv_initial 100000
             (demo_opportunity ''BUSD'' ''TUSD'' 1 0.3 50)))
         \<and> field (fst (PV_validateOpportunity pv_initial 100000
             (demo_opportunity ''BUSD'' ''TUSD'' 1 0.3 50))) ''warning''
            = Some (JStr [Txt ''Spread exceeds normal threshold ('', Num 0.2,
                     Txt ''%) - proceed with caution''])"
    using a busd_tusd_within_history ter1 quat1 thr1 by (simp add: demo_opportunity_def)
  have B: "\<not> isValid (fst (PV_validateOpportunity pv_initial 100000
             (demo_opportunity ''WETH'' ''USDC'' 1 2.5 50)))"
    using b ter2 thr2 by (simp add: demo_opportunity_def)
  have C: "field (fst (PV_validateOpportunity pv_initial 100000
             (demo_opportunity ''WETH'' ''WBTC'' 1 0.3 50))) ''warning'' = Some JNull"
    using c thr3 by (simp add: demo_opportunity_def)
  show ?thesis using A B C by blast
qed


section \<open>Liquidity depth: what grows with the amount\<close>

lemma bigint_quot_pos_divisor:
  "0 < d \<Longrightarrow> bigint_quot a d = (if 0 \<le> a then a div d else - ((- a) div d))"
  by (simp add: bigint_quot_def sgn_if)

lemma bigint_quot_mono:
  assumes d: "0 < d" and ab: "a \<le> b"
  shows "bigint_quot a d \<le> bigint_quot b d"
proof -
  consider "0 \<le> a" | "a < 0" "0 \<le> b" | "a < 0" "b < 0" by linarith
  then show ?thesis
  proof cases
    case 1
    then show ?thesis using d ab by (simp add: bigint_quot_pos_divisor zdiv_mono1)
  next
    case 2
    have "0 \<le> (- a) div d" using 2 d by (simp add: pos_imp_zdiv_nonneg_iff)
    moreover have "0 \<le> b div d" using 2 d by (simp add: pos_imp_zdiv_nonneg_iff)
    ultimately show ?thesis using 2 d by (simp add: bigint_quot_pos_divisor)
  next
    case 3
    have "(- b) div d \<le> (- a) div d" using ab d by (simp add: zdiv_mono1)
    then show ?thesis using 3 d by (simp add: bigint_quot_pos_divisor)
  qed
qed

lemma reserveRatio_of_pos:
  "0 < rIn \<Longrightarrow> reserveRatio_of a rIn = Inr (real_of_int (bigint_quot (a * 10000) rIn) / 100)"
  by (simp add: reserveRatio_of_def bigint_div_def bind_exn_def)

lemma reserveRatio_mono:
  assumes "0 < rIn" "a \<le> b"
  shows "\<exists>ra rb. reserveRatio_of a rIn = Inr ra \<and> reserveRatio_of b rIn = Inr rb \<and> ra \<le> rb"
proof -
  have "bigint_quot (a * 10000) rIn \<le> bigint_quot (b * 10000) rIn"
    using assms by (intro bigint_quot_mono) simp_all
  then have "real_of_int (bigint_quot (a * 10000) rIn) / 100
      \<le> real_of_int (bigint_quot (b * 10000) rIn) / 100"
    by simp
  then show ?thesis
    unfolding reserveRatio_of_pos [OF assms(1)] by blast
qed

lemma ratio_gate_rejects:
  assumes ok: "success rs" and rr: "reserveRatio_of amt (reserveIn rs) = Inr ra"
    and over: "or_default (maxReserveRatio opts) 5 < ra"
  shows "\<not> isValid (checkDexLiquidity cfg rs dex tin tout amt opts)"
  using assms by (simp add: checkDexLiquidity_def checkDexLiquidity_body_def bind_exn_def Let_def)

lemma ratio_gate_monotone:
  assumes ok: "success rs" and pos: "0 < reserveIn rs" and ab: "a \<le> b"
    and rr: "reserveRatio_of a (reserveIn rs) = Inr ra"
    and over: "or_default (maxReserveRatio opts) 5 < ra"
  shows "\<not> isValid (checkDexLiquidity cfg rs dex tin tout b opts)"
proof -
  from reserveRatio_mono [OF pos ab] rr obtain rb
    where rb: "reserveRatio_of b (reserveIn rs) = Inr rb" and le: "ra \<le> rb" by auto
  from over le have "or_default (maxReserveRatio opts) 5 < rb" by simp
  from ratio_gate_rejects [OF ok rb this] show ?thesis .
qed

lemma failed_reserves_reject:
  "\<not> success rs \<Longrightarrow> \<not> isValid (checkDexLiquidity cfg rs dex tin tout amt opts)"
  by (simp add: checkDexLiquidity_def checkDexLiquidity_body_def)

lemma depth_threshold_exists:
  assumes pos: "0 < reserveIn rs"
  shows "\<exists>T. \<forall>a>T. \<not> isValid (checkDexLiquidity cfg rs dex tin tout a opts)"
proof (cases "success rs")
  case False
  then show ?thesis using failed_reserves_reject by blast
next
  case True
  define M where "M = or_default (maxReserveRatio opts) 5"
  define k where "k = max 1 (\<lfloor>M\<rfloor> + 1)"
  define T where "T = reserveIn rs * k"
  have k1: "1 \<le> k" and kM: "M < real_of_int k"
    unfolding k_def by linarith+
  have "\<not> isValid (checkDexLiquidity cfg rs dex tin tout a opts)" if a: "T < a" for a
  proof -
    have "0 \<le> T" using pos k1 unfolding T_def by simp
    then have a0: "0 \<le> a * 10000" using a by simp
    have "reserveIn rs * (k * 10000) \<le> a * 10000" using a unfolding T_def by simp
    then have "(reserveIn rs * (k * 10000)) div reserveIn rs \<le> (a * 10000) div reserveIn rs"
      using pos by (intro zdiv_mono1) simp_all
    then have q: "k * 10000 \<le> (a * 10000) div reserveIn rs" using pos by simp
    have rr: "reserveRatio_of a (reserveIn rs)
                = Inr (real_of_int ((a * 10000) div reserveIn rs) / 100)"
      using pos a0 by (simp add: reserveRatio_of_pos bigint_quot_pos_divisor)
    have "real_of_int (k * 10000) \<le> real_of_int ((a * 10000) div reserveIn rs)"
      using q by (simp only: of_int_le_iff)
    then have "real_of_int k * 100 \<le> real_of_int ((a * 10000) div reserveIn rs) / 100" by simp
    moreover have "real_of_int k \<le> real_of_int k * 100" using k1 by simp
    ultimately have "M < real_of_int ((a * 10000) div reserveIn rs) / 100" using kM by linarith
    then show ?thesis using ratio_gate_rejects [OF True rr] unfolding M_def by blast
  qed
  then show ?thesis by blast
qed

text \<open>
  C8, as the code has it. For a pool with positive \<open>reserveIn\<close>: the computed
  \<open>reserveRatio\<close> never decreases when \<open>amountIn\<close> grows; there is an amount above
  which \<open>checkDexLiquidity\<close> is always invalid; and once an amount is over the
  reserve-ratio ceiling, every larger amount is rejected as well. Nothing is said of
  the truncated \<open>priceImpact\<close>, which is not monotone.
\<close>

theorem depth_gate_ratio_monotone:
  assumes pos: "0 < reserveIn rs"
  shows "(\<forall>a b. a \<le> b \<longrightarrow>
            (\<exists>ra rb. reserveRatio_of a (reserveIn rs) = Inr ra
                   \<and> reserveRatio_of b (reserveIn rs) = Inr rb \<and> ra \<le> rb))
       \<and> (\<exists>T. \<forall>a>T. \<not> isValid (checkDexLiquidity cfg rs dex tin tout a opts))
       \<and> (\<forall>a b ra. success rs \<and> a \<le> b \<and> reserveRatio_of a (reserveIn rs) = Inr ra
              \<and> or_default (maxReserveRatio opts) 5 < ra \<longrightarrow>
            \<not> isValid (checkDexLiquidity cfg rs dex tin tout b opts))"
proof -
  have m: "\<forall>a b. a \<le> b \<longrightarrow>
            (\<exists>ra rb. reserveRatio_of a (reserveIn rs) = Inr ra
                   \<and> reserveRatio_of b (reserveIn rs) = Inr rb \<and> ra \<le> rb)"
    using reserveRatio_mono [OF pos] by blast
  have t: "\<exists>T. \<forall>a>T. \<not> isValid (checkDexLiquidity cfg rs dex tin tout a opts)"
    by (rule depth_threshold_exists [OF pos])
  have g: "\<forall>a b ra. success rs \<and> a \<le> b \<and> reserveRatio_of a (reserveIn rs) = Inr ra
              \<and> or_default (maxReserveRatio opts) 5 < ra \<longrightarrow>
            \<not> isValid (checkDexLiquidity cfg rs dex tin tout b opts)"
    using ratio_gate_monotone [OF _ pos] by blast
  show ?thesis using m t g by blast
qed

theorem depth_gate_ratio_monotone_witness:
  "reserveRatio_of 60000000000000000000 (reserveIn demo_pool) = Inr 6
   \<and> \<not> isValid (checkDexLiquidity None demo_pool ''SushiSwap'' (demo_token ''WETH'')
         (demo_token ''DAI'') 70000000000000000000 no_options)"
proof -
  have pos: "0 < reserveIn demo_pool" by (simp add: demo_pool_def)
  have rr: "reserveRatio_of 60000000000000000000 (reserveIn demo_pool) = Inr 6"
    by (simp add: reserveRatio_of_def bigint_div_def bigint_quot_def bind_exn_def demo_pool_def)
  have ok: "success demo_pool" by (simp add: demo_pool_def)
  have over: "or_default (maxReserveRatio no_options) 5 < 6"
    by (simp add: no_options_def or_default_def)
  from depth_gate_ratio_monotone [OF pos, of None "''SushiSwap''" "demo_token ''WETH''"
      "demo_token ''DAI''" no_options]
  have "success demo_pool \<and> (60000000000000000000::int) \<le> 70000000000000000000
          \<and> reserveRatio_of 60000000000000000000 (reserveIn demo_pool) = Inr 6
          \<and> or_default (maxReserveRatio no_options) 5 < 6 \<longrightarrow>
        \<not> isValid (checkDexLiquidity None demo_pool ''SushiSwap'' (demo_token ''WETH'')
            (demo_token ''DAI'') 70000000000000000000 no_options)"
    by blast
  then show ?thesis using rr ok over by simp
qed

text \<open>
  In the pool of 1000 tokens a side, an input of one smallest unit is rejected (its
  expected output truncates to 0, a price impact of 100 percent) while the larger input of
  10 tokens passes with a price impact of 1.29 percent: the price impact falls as the
  amount grows, and the check turns valid again above an amount it rejected.
\<close>

theorem depth_gate_counterexample:
  "\<not> isValid (checkDexLiquidity None demo_pool ''SushiSwap'' (demo_token ''WETH'')
        (demo_token ''DAI'') 1 no_options)
   \<and> isValid (checkDexLiquidity None demo_pool ''SushiSwap'' (demo_token ''WETH'')
        (demo_token ''DAI'') 10000000000000000000 no_options)
   \<and> expectedOutput_of ''SushiSwap'' demo_pool 1 = Inr 0
   \<and> priceImpact_of demo_pool 0 1 = Inr 100
   \<and> expectedOutput_of ''SushiSwap'' demo_pool 10000000000000000000 = Inr 9871580343970612988
   \<and> priceImpact_of demo_pool 9871580343970612988 10000000000000000000 = Inr 1.29"
proof -
  have a: "\<not> isValid (checkDexLiquidity None demo_pool ''SushiSwap'' (demo_token ''WETH'')
        (demo_token ''DAI'') 1 no_options)"
    by (simp add: checkDexLiquidity_def checkDexLiquidity_body_def bind_exn_def Let_def
        demo_pool_def reserveRatio_of_def priceImpact_of_def expectedOutput_of_def bigint_div_def
        bigint_quot_def no_options_def or_default_def)
  have b: "isValid (checkDexLiquidity None demo_pool ''SushiSwap'' (demo_token ''WETH'')
        (demo_token ''DAI'') 10000000000000000000 no_options)"
    by (simp add: checkDexLiquidity_def checkDexLiquidity_body_def bind_exn_def Let_def
        demo_pool_def reserveRatio_of_def priceImpact_of_def expectedOutput_of_def bigint_div_def
        bigint_quot_def no_options_def or_default_def)
  have c: "expectedOutput_of ''SushiSwap'' demo_pool 1 = Inr 0"
    "priceImpact_of demo_pool 0 1 = Inr 100"
    "expectedOutput_of ''SushiSwap'' demo_pool 10000000000000000000 = Inr 9871580343970612988"
    "priceImpact_of demo_pool 9871580343970612988 10000000000000000000 = Inr 1.29"
    by (simp_all add: demo_pool_def priceImpact_of_def expectedOutput_of_def bigint_div_def
        bigint_quot_def bind_exn_def Let_def)
  show ?thesis using a b c by blast
qed

section \<open>Profitability\<close>









section \<open>Orchestration: order of the gates, exceptions, the disabled flag\<close>

lemma VM_gas_gate_first:
  assumes "getFeeData env = Inr gp" and "maxGasPrice m < formatUnits gp 9"
  shows "VM_validateOpportunity m env opp =
     (\<lparr>isValid = False,
       details = [(''reason'', JStr [Txt ''Gas price too high: '', Fixed 2 (formatUnits gp 9),
                     Txt '' gwei > '', Num (maxGasPrice m), Txt '' gwei'']),
                  (''gasPrice'', JBig gp),
                  (''gasPriceGwei'', JNum (formatUnits gp 9)),
                  (''maxGasPrice'', JNum (maxGasPrice m)),
                  (''check'', JStr [Txt ''gas_price''])]\<rparr>,
      [Called ''provider.getFeeData''])"
  using assms
  by (simp add: VM_validateOpportunity_def VM_validateOpportunity_body_def checkGasPrice_def Let_def)

lemma validateGasCosts_too_high:
  assumes "evm_getFeeData env = Inr gp" and "config_maxGasPrice env = Inr cm"
    and "or_default cm 100 < formatUnits gp 9"
  shows "validateGasCosts m env opp =
     (gas_reject_too_high (formatUnits gp 9) (or_default cm 100), [Called ''provider.getFeeData''])"
  using assms by (simp add: validateGasCosts_def validateGasCosts_body_def Let_def)

lemma EVM_body_cases:
  assumes p: "parseUnits (amountIn opp) (getDecimals (tokenA opp)) = Inr amt"
    and l: "validateLiquidity env (tokenAAddress opp) (tokenBAddress opp) amt (buyDex opp) = Inr lv"
  shows "\<not> isValid lv \<Longrightarrow> EVM_validateOpportunity_body m env opp =
           (Inr lv, [Called ''liquidityValidator.validateLiquidity'',
                     Emitted ''liquidityValidationResult'' lv])"
    and "isValid lv \<Longrightarrow>
         validatePrices env (tokenA opp) (tokenB opp) (buyDex opp) (sellDex opp) (profitUsd opp) = Inr pv \<Longrightarrow>
         \<not> isValid pv \<Longrightarrow>
         EVM_validateOpportunity_body m env opp =
           (Inr pv, [Called ''liquidityValidator.validateLiquidity'',
                     Emitted ''liquidityValidationResult'' lv,
                     Called ''priceValidator.validatePrices'',
                     Emitted ''priceValidationResult'' pv])"
    and "isValid lv \<Longrightarrow>
         validatePrices env (tokenA opp) (tokenB opp) (buyDex opp) (sellDex opp) (profitUsd opp) = Inr pv \<Longrightarrow>
         isValid pv \<Longrightarrow> \<not> isValid (fst (validateGasCosts m env opp)) \<Longrightarrow>
         EVM_validateOpportunity_body m env opp =
           (Inr (fst (validateGasCosts m env opp)),
            [Called ''liquidityValidator.validateLiquidity'',
             Emitted ''liquidityValidationResult'' lv,
             Called ''priceValidator.validatePrices'',
             Emitted ''priceValidationResult'' pv] @ snd (validateGasCosts m env opp)
             @ [Emitted ''validationResult'' (fst (validateGasCosts m env opp))])"
  using p l by (simp_all add: EVM_validateOpportunity_body_def Let_def case_prod_beta)

lemma EVM_body_throws:
  "parseUnits (amountIn opp) (getDecimals (tokenA opp)) = Inl e \<Longrightarrow>
     EVM_validateOpportunity_body m env opp = (Inl e, [])"
  "parseUnits (amountIn opp) (getDecimals (tokenA opp)) = Inr amt \<Longrightarrow>
   validateLiquidity env (tokenAAddress opp) (tokenBAddress opp) amt (buyDex opp) = Inl e \<Longrightarrow>
     EVM_validateOpportunity_body m env opp = (Inl e, [Called ''liquidityValidator.validateLiquidity''])"
  "parseUnits (amountIn opp) (getDecimals (tokenA opp)) = Inr amt \<Longrightarrow>
   validateLiquidity env (tokenAAddress opp) (tokenBAddress opp) amt (buyDex opp) = Inr lv \<Longrightarrow>
   isValid lv \<Longrightarrow>
   validatePrices env (tokenA opp) (tokenB opp) (buyDex opp) (sellDex opp) (profitUsd opp) = Inl e \<Longrightarrow>
     EVM_validateOpportunity_body m env opp =
       (Inl e, [Called ''liquidityValidator.validateLiquidity'',
                Emitted ''liquidityValidationResult'' lv,
                Called ''priceValidator.validatePrices''])"
  by (simp_all add: EVM_validateOpportunity_body_def Let_def)

lemma EVM_untripped:
  assumes "validationEnabled m" and "\<not> fst (isTripped c now s)"
  shows "fst (EVM_validateOpportunity m env c now s opp) =
           (case fst (EVM_validateOpportunity_body m env opp) of
              Inl e \<Rightarrow> validation_error e | Inr r \<Rightarrow> r)"
    and "fst (snd (EVM_validateOpportunity m env c now s opp)) =
           Called ''CircuitBreakerManager.isTripped'' # snd (EVM_validateOpportunity_body m env opp)
           @ (case fst (EVM_validateOpportunity_body m env opp) of
                Inl e \<Rightarrow> [Emitted ''validationResult'' (validation_error e)] | Inr r \<Rightarrow> [])"
  using assms
  by (auto simp add: EVM_validateOpportunity_def Let_def case_prod_beta split: sum.splits prod.splits)

lemma EVM_body_gas_too_high_invalid:
  assumes g: "evm_getFeeData env = Inr gp" and c: "config_maxGasPrice env = Inr cm"
    and h: "or_default cm 100 < formatUnits gp 9"
    and b: "fst (EVM_validateOpportunity_body m env opp) = Inr r"
  shows "\<not> isValid r"
proof -
  have gv: "\<not> isValid (fst (validateGasCosts m env opp))"
    by (simp add: validateGasCosts_too_high [OF g c h] gas_reject_too_high_def)
  show ?thesis
    using b gv
    by (auto simp add: EVM_validateOpportunity_body_def Let_def case_prod_beta
        split: sum.splits if_splits)
qed

lemma EVM_body_trace_head:
  "parseUnits (amountIn opp) (getDecimals (tokenA opp)) = Inr amt \<Longrightarrow>
   take 1 (snd (EVM_validateOpportunity_body m env opp)) = [Called ''liquidityValidator.validateLiquidity'']"
  by (simp add: EVM_validateOpportunity_body_def Let_def case_prod_beta split: sum.splits)

lemma VM_body_throws:
  "isValid (checkGasPrice m (getFeeData env)) \<Longrightarrow> liquidity_validateOpportunity env opp = Inl e \<Longrightarrow>
     VM_validateOpportunity_body m env opp =
       (Inl e, [Called ''provider.getFeeData'', Called ''liquidityValidator.validateOpportunity''])"
  "isValid (checkGasPrice m (getFeeData env)) \<Longrightarrow> liquidity_validateOpportunity env opp = Inr lv \<Longrightarrow>
   isValid lv \<Longrightarrow> price_validateOpportunity env opp = Inl e \<Longrightarrow>
     VM_validateOpportunity_body m env opp =
       (Inl e, [Called ''provider.getFeeData'', Called ''liquidityValidator.validateOpportunity'',
                Called ''priceValidator.validateOpportunity''])"
  by (simp_all add: VM_validateOpportunity_body_def Let_def)

lemma validateGasCosts_asks_feeData:
  "Called ''provider.getFeeData'' \<in> set (snd (validateGasCosts m env opp))"
  by (simp add: validateGasCosts_def validateGasCosts_body_def Let_def split: sum.splits)

lemma EVM_feeData_asked_iff:
  "Called ''provider.getFeeData'' \<in> set (snd (EVM_validateOpportunity_body m env opp)) \<longleftrightarrow>
     (\<exists>amt lv pv. parseUnits (amountIn opp) (getDecimals (tokenA opp)) = Inr amt
        \<and> validateLiquidity env (tokenAAddress opp) (tokenBAddress opp) amt (buyDex opp) = Inr lv
        \<and> isValid lv
        \<and> validatePrices env (tokenA opp) (tokenB opp) (buyDex opp) (sellDex opp) (profitUsd opp)
             = Inr pv
        \<and> isValid pv)"
  using validateGasCosts_asks_feeData [of m env opp]
  by (auto simp add: EVM_validateOpportunity_body_def Let_def case_prod_beta split: sum.splits)

lemma EVM_untripped_feeData:
  assumes "validationEnabled m" and "\<not> fst (isTripped c now s)"
  shows "Called ''provider.getFeeData'' \<in> set (fst (snd (EVM_validateOpportunity m env c now s opp)))
     \<longleftrightarrow> Called ''provider.getFeeData'' \<in> set (snd (EVM_validateOpportunity_body m env opp))"
  unfolding EVM_untripped(2) [OF assms] by (auto split: sum.splits)

text \<open>
  C1, as the code has it. In \<open>ValidationManager.validateOpportunity\<close>, which has no
  circuit-breaker gate, a gas price above the ceiling gives the gas-price rejection and
  nothing but the fee data has been asked for. In
  \<open>EnhancedValidationManager.validateOpportunity\<close>, with validation enabled and the
  breaker not tripped, a gas price above the ceiling always ends in a rejection, but the
  gas ceiling is step 4. The fee data is asked for exactly when the liquidity validator
  and then the price validator have both returned a valid verdict. The liquidity
  validator is called right after the breaker gate; a rejection by the liquidity or by
  the price validator is returned as it is, and an exception of the price validator
  becomes the validation error, each without the fee data being asked for; when both
  have passed, the fee data is asked for after the price validator's result has been
  emitted, and the verdict is the rejection whose reason cites the gas price.
\<close>

theorem gas_gate_position:
  "(getFeeData venv = Inr gp \<and> maxGasPrice vm < formatUnits gp 9 \<longrightarrow>
      VM_validateOpportunity vm venv opp =
        (\<lparr>isValid = False,
          details = [(''reason'', JStr [Txt ''Gas price too high: '', Fixed 2 (formatUnits gp 9),
                        Txt '' gwei > '', Num (maxGasPrice vm), Txt '' gwei'']),
                     (''gasPrice'', JBig gp),
                     (''gasPriceGwei'', JNum (formatUnits gp 9)),
                     (''maxGasPrice'', JNum (maxGasPrice vm)),
                     (''check'', JStr [Txt ''gas_price''])]\<rparr>,
         [Called ''provider.getFeeData'']))
   \<and> (validationEnabled em \<and> \<not> fst (isTripped c now s) \<and> evm_getFeeData env = Inr egp
        \<and> config_maxGasPrice env = Inr cm \<and> or_default cm 100 < formatUnits egp 9 \<longrightarrow>
        \<not> isValid (fst (EVM_validateOpportunity em env c now s opp))
      \<and> (Called ''provider.getFeeData''
            \<in> set (fst (snd (EVM_validateOpportunity em env c now s opp))) \<longleftrightarrow>
          (\<exists>a l p. parseUnits (amountIn opp) (getDecimals (tokenA opp)) = Inr a
             \<and> validateLiquidity env (tokenAAddress opp) (tokenBAddress opp) a (buyDex opp) = Inr l
             \<and> isValid l
             \<and> validatePrices env (tokenA opp) (tokenB opp) (buyDex opp) (sellDex opp)
                  (profitUsd opp) = Inr p
             \<and> isValid p))
      \<and> (parseUnits (amountIn opp) (getDecimals (tokenA opp)) = Inr amt \<longrightarrow>
            take 2 (fst (snd (EVM_validateOpportunity em env c now s opp))) =
              [Called ''CircuitBreakerManager.isTripped'',
               Called ''liquidityValidator.validateLiquidity'']
          \<and> (validateLiquidity env (tokenAAddress opp) (tokenBAddress opp) amt (buyDex opp) = Inr lv
               \<and> \<not> isValid lv \<longrightarrow>
                 fst (EVM_validateOpportunity em env c now s opp) = lv
               \<and> fst (snd (EVM_validateOpportunity em env c now s opp)) =
                   [Called ''CircuitBreakerManager.isTripped'',
                    Called ''liquidityValidator.validateLiquidity'',
                    Emitted ''liquidityValidationResult'' lv])
          \<and> (validateLiquidity env (tokenAAddress opp) (tokenBAddress opp) amt (buyDex opp) = Inr lv
               \<and> isValid lv
               \<and> validatePrices env (tokenA opp) (tokenB opp) (buyDex opp) (sellDex opp)
                    (profitUsd opp) = Inr pv
               \<and> \<not> isValid pv \<longrightarrow>
                 fst (EVM_validateOpportunity em env c now s opp) = pv
               \<and> fst (snd (EVM_validateOpportunity em env c now s opp)) =
                   [Called ''CircuitBreakerManager.isTripped'',
                    Called ''liquidityValidator.validateLiquidity'',
                    Emitted ''liquidityValidationResult'' lv,
                    Called ''priceValidator.validatePrices'',
                    Emitted ''priceValidationResult'' pv])
          \<and> (validateLiquidity env (tokenAAddress opp) (tokenBAddress opp) amt (buyDex opp) = Inr lv
               \<and> isValid lv
               \<and> validatePrices env (tokenA opp) (tokenB opp) (buyDex opp) (sellDex opp)
                    (profitUsd opp) = Inl e \<longrightarrow>
                 fst (EVM_validateOpportunity em env c now s opp) = validation_error e
               \<and> fst (snd (EVM_validateOpportunity em env c now s opp)) =
                   [Called ''CircuitBreakerManager.isTripped'',
                    Called ''liquidityValidator.validateLiquidity'',
                    Emitted ''liquidityValidationResult'' lv,
                    Called ''priceValidator.validatePrices'',
                    Emitted ''validationResult'' (validation_error e)])
          \<and> (validateLiquidity env (tokenAAddress opp) (tokenBAddress opp) amt (buyDex opp) = Inr lv
               \<and> isValid lv
               \<and> validatePrices env (tokenA opp) (tokenB opp) (buyDex opp) (sellDex opp)
                    (profitUsd opp) = Inr pv
               \<and> isValid pv \<longrightarrow>
                 fst (EVM_validateOpportunity em env c now s opp) =
                   \<lparr>isValid = False,
                    details = [(''reason'', JStr [Txt ''Gas price too high: '',
                                  Num (formatUnits egp 9), Txt '' gwei > '',
                                  Num (or_default cm 100), Txt '' gwei'']),
                               (''gasPrice'', JNum (formatUnits egp 9)),
                               (''maxGasPrice'', JNum (or_default cm 100))]\<rparr>
               \<and> fst (snd (EVM_validateOpportunity em env c now s opp)) =
                   [Called ''CircuitBreakerManager.isTripped'',
                    Called ''liquidityValidator.validateLiquidity'',
                    Emitted ''liquidityValidationResult'' lv,
                    Called ''priceValidator.validatePrices'',
                    Emitted ''priceValidationResult'' pv,
                    Called ''provider.getFeeData'',
                    Emitted ''validationResult''
                      (gas_reject_too_high (formatUnits egp 9) (or_default cm 100))])))"
proof -
  have A: "getFeeData venv = Inr gp \<and> maxGasPrice vm < formatUnits gp 9 \<longrightarrow>
      VM_validateOpportunity vm venv opp =
        (\<lparr>isValid = False,
          details = [(''reason'', JStr [Txt ''Gas price too high: '', Fixed 2 (formatUnits gp 9),
                        Txt '' gwei > '', Num (maxGasPrice vm), Txt '' gwei'']),
                     (''gasPrice'', JBig gp),
                     (''gasPriceGwei'', JNum (formatUnits gp 9)),
                     (''maxGasPrice'', JNum (maxGasPrice vm)),
                     (''check'', JStr [Txt ''gas_price''])]\<rparr>,
         [Called ''provider.getFeeData''])"
    using VM_gas_gate_first by blast
  {
    assume en: "validationEnabled em" and nt: "\<not> fst (isTripped c now s)"
      and g: "evm_getFeeData env = Inr egp" and cfg: "config_maxGasPrice env = Inr cm"
      and h: "or_default cm 100 < formatUnits egp 9"
    note res = EVM_untripped(1) [OF en nt, of env opp]
    note tr = EVM_untripped(2) [OF en nt, of env opp]
    have inv: "\<not> isValid (fst (EVM_validateOpportunity em env c now s opp))"
    proof (cases "fst (EVM_validateOpportunity_body em env opp)")
      case (Inl e)
      then show ?thesis unfolding res by (simp add: validation_error_def)
    next
      case (Inr r)
      then show ?thesis
        unfolding res using EVM_body_gas_too_high_invalid [OF g cfg h Inr] by simp
    qed
    have asked: "Called ''provider.getFeeData''
            \<in> set (fst (snd (EVM_validateOpportunity em env c now s opp))) \<longleftrightarrow>
          (\<exists>a l p. parseUnits (amountIn opp) (getDecimals (tokenA opp)) = Inr a
             \<and> validateLiquidity env (tokenAAddress opp) (tokenBAddress opp) a (buyDex opp) = Inr l
             \<and> isValid l
             \<and> validatePrices env (tokenA opp) (tokenB opp) (buyDex opp) (sellDex opp)
                  (profitUsd opp) = Inr p
             \<and> isValid p)"
      unfolding EVM_untripped_feeData [OF en nt] EVM_feeData_asked_iff ..
    have gv: "validateGasCosts em env opp =
        (gas_reject_too_high (formatUnits egp 9) (or_default cm 100), [Called ''provider.getFeeData''])"
      by (rule validateGasCosts_too_high [OF g cfg h])
    {
      assume p: "parseUnits (amountIn opp) (getDecimals (tokenA opp)) = Inr amt"
      have hd2: "take 2 (fst (snd (EVM_validateOpportunity em env c now s opp))) =
              [Called ''CircuitBreakerManager.isTripped'',
               Called ''liquidityValidator.validateLiquidity'']"
        unfolding tr using EVM_body_trace_head [OF p, of em env]
        by (cases "snd (EVM_validateOpportunity_body em env opp)") simp_all
      have liq: "fst (EVM_validateOpportunity em env c now s opp) = lv
               \<and> fst (snd (EVM_validateOpportunity em env c now s opp)) =
                   [Called ''CircuitBreakerManager.isTripped'',
                    Called ''liquidityValidator.validateLiquidity'',
                    Emitted ''liquidityValidationResult'' lv]"
        if l: "validateLiquidity env (tokenAAddress opp) (tokenBAddress opp) amt (buyDex opp) = Inr lv"
          and nv: "\<not> isValid lv"
        unfolding res tr EVM_body_cases(1) [OF p l nv] by simp
      have prej: "fst (EVM_validateOpportunity em env c now s opp) = pv
               \<and> fst (snd (EVM_validateOpportunity em env c now s opp)) =
                   [Called ''CircuitBreakerManager.isTripped'',
                    Called ''liquidityValidator.validateLiquidity'',
                    Emitted ''liquidityValidationResult'' lv,
                    Called ''priceValidator.validatePrices'',
                    Emitted ''priceValidationResult'' pv]"
        if l: "validateLiquidity env (tokenAAddress opp) (tokenBAddress opp) amt (buyDex opp) = Inr lv"
          and lvv: "isValid lv"
          and pr: "validatePrices env (tokenA opp) (tokenB opp) (buyDex opp) (sellDex opp)
                    (profitUsd opp) = Inr pv"
          and npv: "\<not> isValid pv"
        unfolding res tr EVM_body_cases(2) [OF p l lvv pr npv] by simp
      have pthrow: "fst (EVM_validateOpportunity em env c now s opp) = validation_error e
               \<and> fst (snd (EVM_validateOpportunity em env c now s opp)) =
                   [Called ''CircuitBreakerManager.isTripped'',
                    Called ''liquidityValidator.validateLiquidity'',
                    Emitted ''liquidityValidationResult'' lv,
                    Called ''priceValidator.validatePrices'',
                    Emitted ''validationResult'' (validation_error e)]"
        if l: "validateLiquidity env (tokenAAddress opp) (tokenBAddress opp) amt (buyDex opp) = Inr lv"
          and lvv: "isValid lv"
          and pr: "validatePrices env (tokenA opp) (tokenB opp) (buyDex opp) (sellDex opp)
                    (profitUsd opp) = Inl e"
        unfolding res tr EVM_body_throws(3) [OF p l lvv pr] by simp
      have gas: "fst (EVM_validateOpportunity em env c now s opp) =
                   \<lparr>isValid = False,
                    details = [(''reason'', JStr [Txt ''Gas price too high: '',
                                  Num (formatUnits egp 9), Txt '' gwei > '',
                                  Num (or_default cm 100), Txt '' gwei'']),
                               (''gasPrice'', JNum (formatUnits egp 9)),
                               (''maxGasPrice'', JNum (or_default cm 100))]\<rparr>
               \<and> fst (snd (EVM_validateOpportunity em env c now s opp)) =
                   [Called ''CircuitBreakerManager.isTripped'',
                    Called ''liquidityValidator.validateLiquidity'',
                    Emitted ''liquidityValidationResult'' lv,
                    Called ''priceValidator.validatePrices'',
                    Emitted ''priceValidationResult'' pv,
                    Called ''provider.getFeeData'',
                    Emitted ''validationResult''
                      (gas_reject_too_high (formatUnits egp 9) (or_default cm 100))]"
        if l: "validateLiquidity env (tokenAAddress opp) (tokenBAddress opp) amt (buyDex opp) = Inr lv"
          and lvv: "isValid lv"
          and pr: "validatePrices env (tokenA opp) (tokenB opp) (buyDex opp) (sellDex opp)
                    (profitUsd opp) = Inr pv"
          and pvv: "isValid pv"
      proof -
        have ng: "\<not> isValid (fst (validateGasCosts em env opp))"
          by (simp add: gv gas_reject_too_high_def)
        show ?thesis
          unfolding res tr EVM_body_cases(3) [OF p l lvv pr pvv ng]
          by (simp add: gv gas_reject_too_high_def)
      qed
      note hd2 liq prej pthrow gas
    }
    note inv asked this
  }
  with A show ?thesis by blast
qed

theorem gas_gate_position_witness:
  "fst (VM_validateOpportunity demo_vm (demo_vm_env 200000000000 (Inr passed) (Inr passed))
         (demo_opportunity ''WETH'' ''DAI'' 1 0.3 100))
     = \<lparr>isValid = False,
        details = [(''reason'', JStr [Txt ''Gas price too high: '', Fixed 2 200,
                      Txt '' gwei > '', Num 100, Txt '' gwei'']),
                   (''gasPrice'', JBig 200000000000), (''gasPriceGwei'', JNum 200),
                   (''maxGasPrice'', JNum 100), (''check'', JStr [Txt ''gas_price''])]\<rparr>
   \<and> snd (VM_validateOpportunity demo_vm (demo_vm_env 200000000000 (Inr passed) (Inr passed))
         (demo_opportunity ''WETH'' ''DAI'' 1 0.3 100)) = [Called ''provider.getFeeData'']
   \<and> get_field (fst (EVM_validateOpportunity demo_manager
         (demo_evm_env 200000000000 (Inr passed) (Inr passed)) demo_config 0 (initial_state 0)
         (demo_opportunity ''WETH'' ''DAI'' 1 0.3 100))) ''reason''
     = JStr [Txt ''Gas price too high: '', Num 200, Txt '' gwei > '', Num 100, Txt '' gwei'']
   \<and> fst (EVM_validateOpportunity demo_manager
         (demo_evm_env 200000000000 (Inr passed) (Inr implausible_spread)) demo_config 0
         (initial_state 0) (demo_opportunity ''WETH'' ''DAI'' 1 0.3 100)) = implausible_spread"
proof -
  have f: "formatUnits 200000000000 9 = 200" by (simp add: formatUnits_def)
  have mx: "maxGasPrice demo_vm = 100"
    by (simp add: demo_vm_def new_ValidationManager_def or_default_def)
  have p: "parseUnits (amountIn (demo_opportunity ''WETH'' ''DAI'' 1 0.3 100))
             (getDecimals (tokenA (demo_opportunity ''WETH'' ''DAI'' 1 0.3 100)))
           = Inr 1000000000000000000"
    by (simp add: demo_opportunity_def getDecimals_def parseUnits_def)
  note t = gas_gate_position [where venv = "demo_vm_env 200000000000 (Inr passed) (Inr passed)"
      and gp = 200000000000 and vm = demo_vm and opp = "demo_opportunity ''WETH'' ''DAI'' 1 0.3 100"
      and em = demo_manager and c = demo_config and now = 0 and s = "initial_state 0"
      and env = "demo_evm_env 200000000000 (Inr passed) (Inr passed)" and egp = 200000000000
      and cm = None and amt = 1000000000000000000 and lv = passed and pv = passed]
  note u = gas_gate_position [where opp = "demo_opportunity ''WETH'' ''DAI'' 1 0.3 100"
      and em = demo_manager and c = demo_config and now = 0 and s = "initial_state 0"
      and env = "demo_evm_env 200000000000 (Inr passed) (Inr implausible_spread)"
      and egp = 200000000000 and cm = None and amt = 1000000000000000000 and lv = passed
      and pv = implausible_spread]
  have A: "fst (VM_validateOpportunity demo_vm (demo_vm_env 200000000000 (Inr passed) (Inr passed))
         (demo_opportunity ''WETH'' ''DAI'' 1 0.3 100))
     = \<lparr>isValid = False,
        details = [(''reason'', JStr [Txt ''Gas price too high: '', Fixed 2 200,
                      Txt '' gwei > '', Num 100, Txt '' gwei'']),
                   (''gasPrice'', JBig 200000000000), (''gasPriceGwei'', JNum 200),
                   (''maxGasPrice'', JNum 100), (''check'', JStr [Txt ''gas_price''])]\<rparr>
   \<and> snd (VM_validateOpportunity demo_vm (demo_vm_env 200000000000 (Inr passed) (Inr passed))
         (demo_opportunity ''WETH'' ''DAI'' 1 0.3 100)) = [Called ''provider.getFeeData'']
   \<and> get_field (fst (EVM_validateOpportunity demo_manager
         (demo_evm_env 200000000000 (Inr passed) (Inr passed)) demo_config 0 (initial_state 0)
         (demo_opportunity ''WETH'' ''DAI'' 1 0.3 100))) ''reason''
     = JStr [Txt ''Gas price too high: '', Num 200, Txt '' gwei > '', Num 100, Txt '' gwei'']"
    using t p
    by (simp add: f mx demo_vm_env_def demo_evm_env_def demo_manager_def demo_config_def
        initial_state_def isTripped_def or_default_def passed_def get_field_def field_def)
  have B: "fst (EVM_validateOpportunity demo_manager
         (demo_evm_env 200000000000 (Inr passed) (Inr implausible_spread)) demo_config 0
         (initial_state 0) (demo_opportunity ''WETH'' ''DAI'' 1 0.3 100)) = implausible_spread"
    using u p
    by (simp add: f demo_evm_env_def demo_manager_def demo_config_def initial_state_def
        isTripped_def or_default_def passed_def implausible_spread_def)
  show ?thesis using A B by blast
qed

text \<open>
  At 200 gwei against the default ceiling of 100, the enhanced manager still calls the
  liquidity validator first. When that validator rejects, its rejection is the verdict;
  when the call throws, the verdict is the validation error. Neither reason cites the gas
  price, and the fee data is never asked for.
\<close>

theorem gas_gate_not_first_counterexample:
  "formatUnits 200000000000 9 = 200
   \<and> or_default None 100 < formatUnits 200000000000 9
   \<and> EVM_validateOpportunity demo_manager
        (demo_evm_env 200000000000 (Inr thin_liquidity) (Inr passed)) demo_config 0
        (initial_state 0) (demo_opportunity ''WETH'' ''DAI'' 1 0.3 100)
      = (\<lparr>isValid = False, details = [(''reason'', JStr [Txt ''Insufficient liquidity''])]\<rparr>,
         [Called ''CircuitBreakerManager.isTripped'',
          Called ''liquidityValidator.validateLiquidity'',
          Emitted ''liquidityValidationResult''
            \<lparr>isValid = False, details = [(''reason'', JStr [Txt ''Insufficient liquidity''])]\<rparr>],
         initial_state 0)
   \<and> EVM_validateOpportunity demo_manager
        (demo_evm_env 200000000000 (Inl ''validateLiquidity is not a function'') (Inr passed))
        demo_config 0 (initial_state 0) (demo_opportunity ''WETH'' ''DAI'' 1 0.3 100)
      = (\<lparr>isValid = False,
          details = [(''reason'', JStr [Txt ''Validation error: '',
                        Txt ''validateLiquidity is not a function'']),
                     (''error'', JStr [Txt ''validateLiquidity is not a function''])]\<rparr>,
         [Called ''CircuitBreakerManager.isTripped'',
          Called ''liquidityValidator.validateLiquidity'',
          Emitted ''validationResult''
            \<lparr>isValid = False,
             details = [(''reason'', JStr [Txt ''Validation error: '',
                           Txt ''validateLiquidity is not a function'']),
                        (''error'', JStr [Txt ''validateLiquidity is not a function''])]\<rparr>],
         initial_state 0)"
  by (simp add: formatUnits_def or_default_def EVM_validateOpportunity_def
      EVM_validateOpportunity_body_def demo_manager_def demo_evm_env_def demo_config_def
      initial_state_def isTripped_def demo_opportunity_def getDecimals_def parseUnits_def
      thin_liquidity_def validation_error_def Let_def)

text \<open>
  C9, as the code has it. When a sub-validator throws an exception with message \<open>e\<close>
  (the liquidity or the price validator, in either manager), \<open>validateOpportunity\<close>
  returns the rejection whose reason is \<open>Validation error: \<close> (capital V) followed
  by \<open>e\<close>; its \<open>error\<close> property is the caught object in the plain manager and the
  message in the enhanced one.
\<close>

theorem validation_error_verdict:
  "(isValid (checkGasPrice vm (getFeeData venv)) \<and> liquidity_validateOpportunity venv opp = Inl e
      \<longrightarrow> fst (VM_validateOpportunity vm venv opp) =
            \<lparr>isValid = False,
             details = [(''reason'', JStr [Txt ''Validation error: '', Txt e]),
                        (''error'', JError e)]\<rparr>)
   \<and> (isValid (checkGasPrice vm (getFeeData venv)) \<and> liquidity_validateOpportunity venv opp = Inr lv
        \<and> isValid lv \<and> price_validateOpportunity venv opp = Inl e
      \<longrightarrow> fst (VM_validateOpportunity vm venv opp) =
            \<lparr>isValid = False,
             details = [(''reason'', JStr [Txt ''Validation error: '', Txt e]),
                        (''error'', JError e)]\<rparr>)
   \<and> (validationEnabled em \<and> \<not> fst (isTripped c now s)
        \<and> parseUnits (amountIn opp) (getDecimals (tokenA opp)) = Inr amt
        \<and> validateLiquidity env (tokenAAddress opp) (tokenBAddress opp) amt (buyDex opp) = Inl e
      \<longrightarrow> fst (EVM_validateOpportunity em env c now s opp) =
            \<lparr>isValid = False,
             details = [(''reason'', JStr [Txt ''Validation error: '', Txt e]),
                        (''error'', JStr [Txt e])]\<rparr>)
   \<and> (validationEnabled em \<and> \<not> fst (isTripped c now s)
        \<and> parseUnits (amountIn opp) (getDecimals (tokenA opp)) = Inr amt
        \<and> validateLiquidity env (tokenAAddress opp) (tokenBAddress opp) amt (buyDex opp) = Inr elv
        \<and> isValid elv
        \<and> validatePrices env (tokenA opp) (tokenB opp) (buyDex opp) (sellDex opp) (profitUsd opp)
             = Inl e
      \<longrightarrow> fst (EVM_validateOpportunity em env c now s opp) =
            \<lparr>isValid = False,
             details = [(''reason'', JStr [Txt ''Validation error: '', Txt e]),
                        (''error'', JStr [Txt e])]\<rparr>)"
proof -
  have a: "isValid (checkGasPrice vm (getFeeData venv)) \<and> liquidity_validateOpportunity venv opp = Inl e
      \<longrightarrow> fst (VM_validateOpportunity vm venv opp) = vm_validation_error e"
    by (simp add: VM_validateOpportunity_def VM_body_throws(1))
  have b: "isValid (checkGasPrice vm (getFeeData venv)) \<and> liquidity_validateOpportunity venv opp = Inr lv
        \<and> isValid lv \<and> price_validateOpportunity venv opp = Inl e
      \<longrightarrow> fst (VM_validateOpportunity vm venv opp) = vm_validation_error e"
    by (simp add: VM_validateOpportunity_def VM_body_throws(2))
  have c: "validationEnabled em \<and> \<not> fst (isTripped c now s)
        \<and> parseUnits (amountIn opp) (getDecimals (tokenA opp)) = Inr amt
        \<and> validateLiquidity env (tokenAAddress opp) (tokenBAddress opp) amt (buyDex opp) = Inl e
      \<longrightarrow> fst (EVM_validateOpportunity em env c now s opp) = validation_error e"
    by (simp add: EVM_untripped(1) EVM_body_throws(2))
  have d: "validationEnabled em \<and> \<not> fst (isTripped c now s)
        \<and> parseUnits (amountIn opp) (getDecimals (tokenA opp)) = Inr amt
        \<and> validateLiquidity env (tokenAAddress opp) (tokenBAddress opp) amt (buyDex opp) = Inr elv
        \<and> isValid elv
        \<and> validatePrices env (tokenA opp) (tokenB opp) (buyDex opp) (sellDex opp) (profitUsd opp)
             = Inl e
      \<longrightarrow> fst (EVM_validateOpportunity em env c now s opp) = validation_error e"
    by (simp add: EVM_untripped(1) EVM_body_throws(3))
  show ?thesis using a b c d unfolding validation_error_def vm_validation_error_def by blast
qed

theorem validation_error_verdict_witness:
  "fst (VM_validateOpportunity demo_vm (demo_vm_env 20000000000 (Inl ''boom'') (Inr passed))
         (demo_opportunity ''WETH'' ''DAI'' 1 0.3 100))
     = \<lparr>isValid = False,
        details = [(''reason'', JStr [Txt ''Validation error: '', Txt ''boom'']),
                   (''error'', JError ''boom'')]\<rparr>
   \<and> fst (EVM_validateOpportunity demo_manager
         (demo_evm_env 20000000000 (Inr passed) (Inl ''no route'')) demo_config 0 (initial_state 0)
         (demo_opportunity ''WETH'' ''DAI'' 1 0.3 100))
     = \<lparr>isValid = False,
        details = [(''reason'', JStr [Txt ''Validation error: '', Txt ''no route'']),
                   (''error'', JStr [Txt ''no route''])]\<rparr>"
proof -
  have p: "parseUnits (amountIn (demo_opportunity ''WETH'' ''DAI'' 1 0.3 100))
             (getDecimals (tokenA (demo_opportunity ''WETH'' ''DAI'' 1 0.3 100)))
           = Inr 1000000000000000000"
    by (simp add: demo_opportunity_def getDecimals_def parseUnits_def)
  have g: "isValid (checkGasPrice demo_vm
             (getFeeData (demo_vm_env 20000000000 (Inl ''boom'') (Inr passed))))"
    by (simp add: checkGasPrice_def demo_vm_env_def demo_vm_def new_ValidationManager_def
        or_default_def formatUnits_def)
  note t1 = validation_error_verdict [where vm = demo_vm
      and venv = "demo_vm_env 20000000000 (Inl ''boom'') (Inr passed)"
      and opp = "demo_opportunity ''WETH'' ''DAI'' 1 0.3 100" and e = "''boom''"]
  note t2 = validation_error_verdict [where em = demo_manager and c = demo_config and now = 0
      and s = "initial_state 0" and env = "demo_evm_env 20000000000 (Inr passed) (Inl ''no route'')"
      and opp = "demo_opportunity ''WETH'' ''DAI'' 1 0.3 100" and e = "''no route''"
      and amt = 1000000000000000000 and elv = passed]
  have A: "fst (VM_validateOpportunity demo_vm (demo_vm_env 20000000000 (Inl ''boom'') (Inr passed))
         (demo_opportunity ''WETH'' ''DAI'' 1 0.3 100))
     = \<lparr>isValid = False,
        details = [(''reason'', JStr [Txt ''Validation error: '', Txt ''boom'']),
                   (''error'', JError ''boom'')]\<rparr>"
    using t1 g by (simp add: demo_vm_env_def)
  have B: "fst (EVM_validateOpportunity demo_manager
         (demo_evm_env 20000000000 (Inr passed) (Inl ''no route'')) demo_config 0 (initial_state 0)
         (demo_opportunity ''WETH'' ''DAI'' 1 0.3 100))
     = \<lparr>isValid = False,
        details = [(''reason'', JStr [Txt ''Validation error: '', Txt ''no route'']),
                   (''error'', JStr [Txt ''no route''])]\<rparr>"
    using t2 p
    by (simp add: demo_evm_env_def demo_manager_def demo_config_def initial_state_def
        isTripped_def passed_def)
  show ?thesis using A B by blast
qed

text \<open>The reason starts with a capital V, not with the lower-case text of the claim.\<close>

theorem validation_error_prefix_counterexample:
  "reason_text (fst (VM_validateOpportunity demo_vm
        (demo_vm_env 20000000000 (Inl ''boom'') (Inr passed))
        (demo_opportunity ''WETH'' ''DAI'' 1 0.3 100)))
     = Some ''Validation error: boom''
   \<and> reason_text (fst (VM_validateOpportunity demo_vm
        (demo_vm_env 20000000000 (Inl ''boom'') (Inr passed))
        (demo_opportunity ''WETH'' ''DAI'' 1 0.3 100)))
     \<noteq> Some (''validation error: '' @ ''boom'')"
  by (simp add: VM_validateOpportunity_def VM_validateOpportunity_body_def checkGasPrice_def
      demo_vm_env_def demo_vm_def new_ValidationManager_def or_default_def formatUnits_def
      vm_validation_error_def reason_text_def get_field_def field_def Let_def)

text \<open>
  C10. After \<open>setValidationEnabled(false)\<close>, \<open>validateOpportunity\<close> returns the valid
  verdict with reason \<open>Validation disabled\<close> for every opportunity, every breaker
  configuration and every breaker state (tripped or not); it calls nothing, emits nothing
  and leaves the breaker state untouched.
\<close>

theorem disabled_validation_bypasses_everything:
  "EVM_validateOpportunity (setValidationEnabled False m) env c now s opp =
     (\<lparr>isValid = True, details = [(''reason'', JStr [Txt ''Validation disabled''])]\<rparr>, [], s)"
  by (simp add: EVM_validateOpportunity_def setValidationEnabled_def)

end
